theory Spec2Isabelle
  imports Complex_Main
begin

text \<open>
  The notebooks of the repository: the alignment of SMP profiles with snow pits and the
  filtering of its results (Part 1), the classification of a profile (Part 3) and the
  propagation bias (Part 5). Python floats are modelled as real numbers, and as
  \<open>real option\<close> where NaN matters: the development is about the formulas and the data
  flow of the notebooks, not about rounding.
\<close>

section \<open>Exceptions as values\<close>

text \<open>
  The exceptions the notebooks can raise, as values. \<open>py_index\<close> is Python's list and
  array indexing: a negative index counts from the end, an index out of range raises.
\<close>

datatype py_error = IndexError | ValueError | TypeError | ZeroDivisionError

definition bind_err :: "py_error + 'a \<Rightarrow> ('a \<Rightarrow> py_error + 'b) \<Rightarrow> py_error + 'b" where
  "bind_err m f = (case m of Inl e \<Rightarrow> Inl e | Inr v \<Rightarrow> f v)"

definition py_index :: "'a list \<Rightarrow> int \<Rightarrow> py_error + 'a" where
  "py_index xs i =
     (if 0 \<le> i \<and> i < int (length xs) then Inr (xs ! nat i)
      else if i < 0 \<and> - int (length xs) \<le> i then Inr (xs ! nat (int (length xs) + i))
      else Inl IndexError)"

section \<open>Part 1: alignment of SMP profiles and snow pits\<close>

subsection \<open>Floats that may be NaN\<close>

text \<open>
  Where the notebooks test for NaN (\<open>dropna\<close>) or sort columns that can hold NaN, a float
  is a \<open>real option\<close>, \<open>None\<close> being NaN. Arithmetic on such values propagates NaN.
\<close>

type_synonym pyfloat = "real option"

definition fsub :: "pyfloat \<Rightarrow> pyfloat \<Rightarrow> pyfloat" where
  "fsub a b = (case a of None \<Rightarrow> None
               | Some x \<Rightarrow> (case b of None \<Rightarrow> None | Some y \<Rightarrow> Some (x - y)))"

subsection \<open>Tables\<close>

text \<open>
  The field data, as the notebook reads it. A row of \<open>pit_summary.csv\<close> (the columns the
  alignment uses), a row of \<open>pit_density.csv\<close> (the columns the notebooks read, and the
  remaining cells of the row, \<open>None\<close> where a cell is empty), and the rows the alignment
  builds from them: a row of \<open>density_df\<close> after \<open>assign(relative_height=...)\<close> and
  \<open>reset_index()\<close>, a row of the table of extracted samples, a row of a
  \<open>compare_profiles\<close> entry, which puts the two side by side, and a row of
  \<open>comparison_df\<close>, which adds \<open>l\<close> and \<open>force_median\<close>.
\<close>

record pit_summary_row =
  ps_ID :: string
  ps_SMPF :: int
  ps_MPD :: real

record pit_density_row =
  pd_ID :: string
  pd_TOP :: real
  pd_RHO :: pyfloat
  pd_TYPE :: "string option"
  pd_rest :: "string option list"

record density_row = pit_density_row +
  dd_index :: nat
  dd_relative_height :: real

record sample_row =
  count_samp :: nat
  mean_samp :: pyfloat

record compare_row =
  col_count_samp :: nat
  col_mean_samp :: pyfloat
  col_index :: nat
  col_ID :: string
  col_TOP :: real
  col_RHO :: pyfloat
  col_TYPE :: "string option"
  col_rest :: "string option list"
  col_relative_height :: real

record result_row = compare_row +
  col_l :: pyfloat
  col_force_median :: pyfloat

subsection \<open>Configuration\<close>

text \<open>The constants of the first cell, threaded through the model as one value.\<close>

record config =
  CUTTER_SIZE :: nat
  WINDOW_SIZE :: nat
  H_RESAMPLE :: real
  L_RESAMPLE :: nat
  MAX_STRETCH_LAYER :: real
  MAX_STRETCH_OVERALL :: real
  NUM_TESTS :: nat

definition notebook_config :: config where
  "notebook_config =
     \<lparr>CUTTER_SIZE = 15, WINDOW_SIZE = 5, H_RESAMPLE = 1, L_RESAMPLE = 50,
      MAX_STRETCH_LAYER = 0.75, MAX_STRETCH_OVERALL = 0.15, NUM_TESTS = 10000\<rparr>"

subsection \<open>Resampling: \<open>np.arange\<close> and \<open>np.interp\<close>\<close>

text \<open>
  \<open>np.arange(0, stop, step)\<close> is \<open>0, step, 2 * step, \<dots>\<close>, with \<open>ceil(stop / step)\<close>
  entries (none when that is not positive); on a zero step the length is not finite and
  it raises \<open>ValueError\<close>. The stop is a real number here: in float64 the sum that gives
  the stop is rounded, which can change the number of depths by one, so what is stated
  about the resampling below is stated for every stop.

  \<open>np.interp(x, xp, fp)\<close> on increasing sample points \<open>xp\<close>: beyond the last point it is
  the last value, before the first point the first value, at a point that value, and in
  between the line through the two neighbouring points. It raises \<open>ValueError\<close> when
  \<open>xp\<close> is empty or \<open>fp\<close> has another length.
\<close>

definition np_arange :: "real \<Rightarrow> real \<Rightarrow> py_error + real list" where
  "np_arange stop step =
     (if step = 0 then Inl ValueError
      else Inr (map (\<lambda>i. real i * step) [0..<nat \<lceil>stop / step\<rceil>]))"

fun interp_from :: "real \<Rightarrow> real \<times> real \<Rightarrow> (real \<times> real) list \<Rightarrow> real" where
  "interp_from x (x0, y0) [] = y0"
| "interp_from x (x0, y0) ((x1, y1) # ps) =
     (if x < x1 then (if x0 = x then y0 else (y1 - y0) / (x1 - x0) * (x - x0) + y0)
      else interp_from x (x1, y1) ps)"

definition interp1 :: "real \<Rightarrow> real list \<Rightarrow> real list \<Rightarrow> real" where
  "interp1 x xp fp =
     (if x > last xp then last fp
      else if x < hd xp then hd fp
      else interp_from x (hd (zip xp fp)) (tl (zip xp fp)))"

definition np_interp :: "real list \<Rightarrow> real list \<Rightarrow> real list \<Rightarrow> py_error + real list" where
  "np_interp x xp fp =
     (if xp = [] \<or> length fp \<noteq> length xp then Inl ValueError
      else Inr (map (\<lambda>v. interp1 v xp fp) x))"

text \<open>
  What the external profile library hands over for one SMP file: the number in the file
  name (\<open>int(smp.name[-4:])\<close>), and the columns of \<open>proksch2015.calc\<close> and
  \<open>loewe2012.calc\<close> over the snowpack samples.
\<close>

record smp_profile =
  smp_file_num :: int
  distance :: "real list"
  P2015_density :: "real list"
  force_median :: "real list"
  L2012_L :: "real list"

record smp_df =
  df_distance :: "real list"
  df_density :: "real list"
  df_force_median :: "real list"
  df_l :: "real list"

text \<open>
  \<^verbatim>\<open>
  depth_array = np.arange(0, p2015.distance.max() + smp_height_diff, H_RESAMPLE)
  density_array = np.interp(depth_array,p2015.distance,p2015.P2015_density)
  force_array = np.interp(depth_array,p2015.distance,l2012.force_median)
  l_array = np.interp(depth_array,p2015.distance,l2012.L2012_L)
  smp_df = pd.DataFrame({'distance': depth_array, 'density': density_array,
                         'force_median': force_array, 'l': l_array})
  \<close>
  The maximum of an empty \<open>distance\<close> column is NaN, on which \<open>np.arange\<close> raises.
\<close>

definition resample_profile :: "real \<Rightarrow> real \<Rightarrow> smp_profile \<Rightarrow> py_error + smp_df" where
  "resample_profile h_resample smp_height_diff smp =
     (if distance smp = [] then Inl ValueError
      else
        bind_err (np_arange (Max (set (distance smp)) + smp_height_diff) h_resample)
          (\<lambda>depth_array.
        bind_err (np_interp depth_array (distance smp) (P2015_density smp)) (\<lambda>density_array.
        bind_err (np_interp depth_array (distance smp) (force_median smp)) (\<lambda>force_array.
        bind_err (np_interp depth_array (distance smp) (L2012_L smp)) (\<lambda>l_array.
          Inr \<lparr>df_distance = depth_array, df_density = density_array,
               df_force_median = force_array, df_l = l_array\<rparr>)))))"

text \<open>A profile of three samples, 0 to 20 mm deep.\<close>

definition smp_example :: smp_profile where
  "smp_example =
     \<lparr>smp_file_num = 649, distance = [0, 10, 20], P2015_density = [200, 300, 250],
      force_median = [1, 2, 4], L2012_L = [3, 2, 1]\<rparr>"

subsection \<open>The random source and the stretch plans\<close>

text \<open>
  The state of \<open>np.random\<close> is the stream of unit variates it will still hand out: entry
  \<open>i\<close> is the \<open>i\<close>-th next draw. Drawing \<open>n\<close> values uniformly from \<open>[low, high]\<close> takes
  the first \<open>n\<close> entries, scaled, and leaves the rest.
\<close>

type_synonym rng = "nat \<Rightarrow> real"

definition uniform :: "real \<Rightarrow> real \<Rightarrow> nat \<Rightarrow> rng \<Rightarrow> real list \<times> rng" where
  "uniform low high n g = (map (\<lambda>i. low + (high - low) * g i) [0..<n], (\<lambda>i. g (i + n)))"

text \<open>
  Modelled from the spec: \<open>smpfunc.random_stretch\<close>, the StretchPlanGenerator, whose source
  is not in the repository's files at hand. The spec (3, 4.2): a plan has one factor per
  segment, each drawn uniformly from \<open>[1 - maxLayerStretch, 1 + maxLayerStretch]\<close>; its
  net stretch is \<open>(sum of (factor - 1) * segment_size) / total_length\<close>; a plan whose
  net stretch exceeds \<open>maxOverallStretch\<close> in absolute value is rejected and a new one is
  drawn, until a valid plan is found. The notebook passes the number of segments only, so
  the lengths are counted in segments: \<open>segment_size = 1\<close>, \<open>total_length = x\<close>. A search
  that never finds a valid plan does not return (\<open>None\<close>).
\<close>

definition net_stretch :: "real \<Rightarrow> real \<Rightarrow> real list \<Rightarrow> real" where
  "net_stretch segment_size total_length plan =
     (\<Sum>factor\<leftarrow>plan. (factor - 1) * segment_size) / total_length"

partial_function (option)
  random_stretch :: "nat \<Rightarrow> real \<Rightarrow> real \<Rightarrow> rng \<Rightarrow> (real list \<times> rng) option" where
  "random_stretch x overall_stretch layer_stretch g =
     (case uniform (1 - layer_stretch) (1 + layer_stretch) x g of
        (plan, g') \<Rightarrow>
          if \<bar>net_stretch 1 (real x) plan\<bar> \<le> overall_stretch then Some (plan, g')
          else random_stretch x overall_stretch layer_stretch g')"

text \<open>
  Two random streams: one whose first two draws give a plan that is rejected, and one
  whose draws give a plan exactly at the bound \<open>1 / 4\<close>.
\<close>

definition g_reject :: rng where
  "g_reject = (\<lambda>i. if i < 2 then 1 else 1 / 2)"

definition g_edge :: rng where
  "g_edge = (\<lambda>i. 3 / 4)"

subsection \<open>Extraction of samples\<close>

text \<open>
  Modelled from the spec: \<open>smpfunc.extract_samples\<close>, the SampleExtractor, whose source is
  not in the repository's files at hand. The spec (4.4): for each window, the count of
  the points of the scaled profile whose depth is in
  \<open>[center - halfHeight, center + halfHeight]\<close>, and the arithmetic mean of their values,
  NaN when the window encloses no point.
\<close>

definition extract_samples :: "real list \<Rightarrow> real list \<Rightarrow> real list \<Rightarrow> real \<Rightarrow> sample_row list" where
  "extract_samples dists vals centers half_height =
     map (\<lambda>center.
           let inside = map snd (filter (\<lambda>(d, v). center - half_height \<le> d
                                               \<and> d \<le> center + half_height)
                                  (zip dists vals))
           in \<lparr>count_samp = length inside,
               mean_samp = (if inside = [] then None
                            else Some (sum_list inside / real (length inside)))\<rparr>)
         centers"

subsection \<open>Ranking the candidates\<close>

text \<open>
  One row of \<open>retrieved_skill\<close>, with the columns \<open>['r','rmse','rmse_corr','mae']\<close>.
\<close>

record skill =
  skill_r :: pyfloat
  skill_rmse :: pyfloat
  skill_rmse_corr :: pyfloat
  skill_mae :: pyfloat

text \<open>
  \<^verbatim>\<open>
  min_scaling_idx = retrieved_skill.sort_values(['r', 'rmse_corr'],
                        ascending=[False, True]).head(1).index.values
  \<close>
  \<open>sort_values\<close> on several columns is a stable lexicographic sort that puts NaN last in
  every column, whatever the direction. \<open>desc_before a b\<close>: \<open>a\<close> sorts strictly before
  \<open>b\<close> in a descending column; \<open>asc_before\<close> likewise in an ascending one. The sort
  inserts each row, from the last to the first, before the first row that is not
  strictly before it, so rows that compare equal keep their order. The rows carry their
  index label.
\<close>

definition desc_before :: "pyfloat \<Rightarrow> pyfloat \<Rightarrow> bool" where
  "desc_before a b =
     (case a of None \<Rightarrow> False | Some x \<Rightarrow> (case b of None \<Rightarrow> True | Some y \<Rightarrow> y < x))"

definition asc_before :: "pyfloat \<Rightarrow> pyfloat \<Rightarrow> bool" where
  "asc_before a b =
     (case a of None \<Rightarrow> False | Some x \<Rightarrow> (case b of None \<Rightarrow> True | Some y \<Rightarrow> x < y))"

definition skill_before :: "skill \<Rightarrow> skill \<Rightarrow> bool" where
  "skill_before s t \<longleftrightarrow>
     desc_before (skill_r s) (skill_r t)
     \<or> (skill_r s = skill_r t \<and> asc_before (skill_rmse_corr s) (skill_rmse_corr t))"

fun insert_row :: "nat \<times> skill \<Rightarrow> (nat \<times> skill) list \<Rightarrow> (nat \<times> skill) list" where
  "insert_row row [] = [row]"
| "insert_row row (other # rest) =
     (if skill_before (snd other) (snd row) then other # insert_row row rest
      else row # other # rest)"

definition sort_values :: "skill list \<Rightarrow> (nat \<times> skill) list" where
  "sort_values df = foldr insert_row (zip [0..<length df] df) []"

text \<open>
  \<open>int(min_scaling_idx)\<close> of the one-entry array \<open>head(1).index.values\<close>; on an empty
  table the array is empty and \<open>int\<close> raises \<open>TypeError\<close>.
\<close>

definition min_scaling_idx :: "skill list \<Rightarrow> py_error + nat" where
  "min_scaling_idx retrieved_skill =
     (case take 1 (sort_values retrieved_skill) of
        [] \<Rightarrow> Inl TypeError
      | row # _ \<Rightarrow> Inr (fst row))"

subsection \<open>The alignment loop\<close>

text \<open>
  What the loop calls and the repository's files at hand do not define: \<open>np.random.seed\<close>
  (the state of the random source that a seed determines), and of \<open>smpfunc\<close> the plan
  generator, \<open>scale_profile\<close> and \<open>calc_skill\<close>. The loop is modelled for any such
  functions. The generator reads and advances the random source and may fail to return
  (\<open>None\<close>); \<open>random_stretch\<close> above is one such generator.
\<close>

record externals =
  np_random_seed :: "nat \<Rightarrow> rng"
  smpfunc_random_stretch :: "nat \<Rightarrow> real \<Rightarrow> real \<Rightarrow> rng \<Rightarrow> (real list \<times> rng) option"
  smpfunc_scale_profile ::
    "real list \<Rightarrow> real list \<Rightarrow> real list \<Rightarrow> nat \<Rightarrow> real \<Rightarrow> real list \<times> real list"
  smpfunc_calc_skill :: "compare_row list \<Rightarrow> nat \<Rightarrow> skill"

text \<open>
  How a piece of the notebook ends: it does not return, it raises, or it is done with a
  value.
\<close>

datatype 'a run = is_Hangs: Hangs | is_Raised: Raised py_error | is_Done: Done 'a

definition bind_run :: "'a run \<Rightarrow> ('a \<Rightarrow> 'b run) \<Rightarrow> 'b run" where
  "bind_run m f = (case m of Hangs \<Rightarrow> Hangs | Raised e \<Rightarrow> Raised e | Done v \<Rightarrow> f v)"

definition of_err :: "py_error + 'a \<Rightarrow> 'a run" where
  "of_err m = (case m of Inl e \<Rightarrow> Raised e | Inr v \<Rightarrow> Done v)"

definition of_opt :: "'a option \<Rightarrow> 'a run" where
  "of_opt m = (case m of None \<Rightarrow> Hangs | Some v \<Rightarrow> Done v)"

text \<open>
  \<^verbatim>\<open>
  density_df = pit_density[pit_density['ID'] == pit_df['ID'].values[0]]
  density_df = density_df.assign(relative_height=np.abs(((density_df['TOP']*10)
                   - CUTTER_SIZE) - density_df['TOP'].max()*10).values)
  \<close>
  with the index column that \<open>reset_index()\<close> adds later: the position of the row in
  \<open>pit_density\<close>.
\<close>

definition density_df_of :: "nat \<Rightarrow> pit_density_row list \<Rightarrow> string \<Rightarrow> density_row list" where
  "density_df_of cutter_size pit_density pit_id =
     (let rows = filter (\<lambda>(i, d). pd_ID d = pit_id) (zip [0..<length pit_density] pit_density);
          top_max = Max (set (map (\<lambda>(i, d). pd_TOP d) rows))
      in map (\<lambda>(i, d).
            \<lparr>pd_ID = pd_ID d, pd_TOP = pd_TOP d, pd_RHO = pd_RHO d, pd_TYPE = pd_TYPE d,
             pd_rest = pd_rest d, dd_index = i,
             dd_relative_height = \<bar>((pd_TOP d * 10) - real cutter_size) - top_max * 10\<bar>\<rparr>)
           rows)"

text \<open>
  \<open>pd.concat([profile, density_df.reset_index()], axis=1)\<close>: the extracted samples and
  the rows of \<open>density_df\<close>, one of each per density measurement, side by side.
\<close>

definition concat_columns :: "sample_row list \<Rightarrow> density_row list \<Rightarrow> compare_row list" where
  "concat_columns profile density_df =
     map2 (\<lambda>s d.
            \<lparr>col_count_samp = count_samp s, col_mean_samp = mean_samp s,
             col_index = dd_index d, col_ID = pd_ID d, col_TOP = pd_TOP d,
             col_RHO = pd_RHO d, col_TYPE = pd_TYPE d, col_rest = pd_rest d,
             col_relative_height = dd_relative_height d\<rparr>)
          profile density_df"

text \<open>\<open>compare_profiles[...].assign(l=..., force_median=...)\<close>.\<close>

definition assign_l_force_median ::
  "compare_row list \<Rightarrow> pyfloat list \<Rightarrow> pyfloat list \<Rightarrow> result_row list" where
  "assign_l_force_median profile l_col force_col =
     map (\<lambda>(row, l_val, force_val).
            \<lparr>col_count_samp = col_count_samp row, col_mean_samp = col_mean_samp row,
             col_index = col_index row, col_ID = col_ID row, col_TOP = col_TOP row,
             col_RHO = col_RHO row, col_TYPE = col_TYPE row, col_rest = col_rest row,
             col_relative_height = col_relative_height row,
             col_l = l_val, col_force_median = force_val\<rparr>)
         (zip profile (zip l_col force_col))"

text \<open>
  \<open>[smpfunc.random_stretch(x, MAX_STRETCH_OVERALL, MAX_STRETCH_LAYER) for x in
  np.repeat(num_sections, NUM_TESTS)]\<close>: \<open>NUM_TESTS\<close> calls, one after the other on the
  random source.
\<close>

fun random_tests_of ::
  "externals \<Rightarrow> nat \<Rightarrow> nat \<Rightarrow> real \<Rightarrow> real \<Rightarrow> rng \<Rightarrow> (real list list \<times> rng) option" where
  "random_tests_of E 0 x overall layer g = Some ([], g)"
| "random_tests_of E (Suc k) x overall layer g =
     (case smpfunc_random_stretch E x overall layer g of
        None \<Rightarrow> None
      | Some (test, g') \<Rightarrow>
          (case random_tests_of E k x overall layer g' of
             None \<Rightarrow> None
           | Some (tests, g'') \<Rightarrow> Some (test # tests, g'')))"

text \<open>
  The variables that live across the iterations of the loop, and the values one iteration
  computes for its profile.
\<close>

record search_state =
  st_comparison_df :: "result_row list"
  st_min_scaling_coeff :: "real list list"
  st_np_random :: rng

record alignment =
  al_density_df :: "density_row list"
  al_smp_df :: smp_df
  al_random_tests :: "real list list"
  al_compare_profiles :: "compare_row list list"
  al_retrieved_skill :: "skill list"
  al_min_scaling_idx :: nat
  al_result :: "result_row list"

text \<open>
  The body of \<open>for smp in smp_data\<close>. No statement of it is inside a \<open>try\<close>: an
  exception leaves the loop. \<open>pit_df['ID'].values[0]\<close> raises \<open>IndexError\<close> when no row of
  \<open>pit_summary\<close> has the file number of the profile; \<open>np.arange\<close> does not take the
  array of several stops that several such rows give; \<open>len(smp_df.index)/L_RESAMPLE\<close>
  raises on a zero \<open>L_RESAMPLE\<close>. The second \<open>scale_profile\<close> call rebinds \<open>dist\<close>, so
  both extractions of the last statement read the depth axis of that call.
\<close>

definition align_profile ::
  "externals \<Rightarrow> config \<Rightarrow> pit_summary_row list \<Rightarrow> pit_density_row list \<Rightarrow>
   search_state \<Rightarrow> smp_profile \<Rightarrow> (search_state \<times> alignment) run" where
  "align_profile E cfg pit_summary pit_density st smp =
     (case filter (\<lambda>pit. ps_SMPF pit = smp_file_num smp) pit_summary of
        [] \<Rightarrow> Raised IndexError
      | pit # others \<Rightarrow>
         let density_df = density_df_of (CUTTER_SIZE cfg) pit_density (ps_ID pit);
             relative_height = map dd_relative_height density_df
         in
         if others \<noteq> [] then Raised ValueError
         else
         bind_run (of_err (resample_profile (H_RESAMPLE cfg)
                             (ps_MPD pit * 1000 - Max (set (distance smp))) smp)) (\<lambda>smp_df.
         if L_RESAMPLE cfg = 0 then Raised ZeroDivisionError
         else
         let num_sections =
               nat \<lceil>real (length (df_distance smp_df)) / real (L_RESAMPLE cfg)\<rceil>
         in
         bind_run (of_opt (random_tests_of E (NUM_TESTS cfg) num_sections
                             (MAX_STRETCH_OVERALL cfg) (MAX_STRETCH_LAYER cfg) (st_np_random st)))
           (\<lambda>(random_tests, g').
         let scaled_profiles =
               map (\<lambda>test. smpfunc_scale_profile E test (df_distance smp_df) (df_density smp_df)
                              (L_RESAMPLE cfg) (H_RESAMPLE cfg)) random_tests;
             compare_profiles =
               map (\<lambda>(dists, rho).
                      concat_columns
                        (extract_samples dists rho relative_height (real (CUTTER_SIZE cfg)))
                        density_df)
                   scaled_profiles;
             retrieved_skill =
               map (\<lambda>profile. smpfunc_calc_skill E profile (CUTTER_SIZE cfg)) compare_profiles
         in
         bind_run (of_err (min_scaling_idx retrieved_skill)) (\<lambda>idx.
         let coeffs = st_min_scaling_coeff st @ [random_tests ! idx];
             (dists, scaled_l) =
               smpfunc_scale_profile E (last coeffs) (df_distance smp_df) (df_l smp_df)
                 (L_RESAMPLE cfg) (H_RESAMPLE cfg);
             (dists, scaled_force_median) =
               smpfunc_scale_profile E (last coeffs) (df_distance smp_df)
                 (df_force_median smp_df) (L_RESAMPLE cfg) (H_RESAMPLE cfg);
             result =
               assign_l_force_median (compare_profiles ! idx)
                 (map mean_samp (extract_samples dists scaled_l relative_height
                                   (real (CUTTER_SIZE cfg))))
                 (map mean_samp (extract_samples dists scaled_force_median relative_height
                                   (real (CUTTER_SIZE cfg))))
         in Done (\<lparr>st_comparison_df = st_comparison_df st @ result,
                    st_min_scaling_coeff = coeffs,
                    st_np_random = g'\<rparr>,
                  \<lparr>al_density_df = density_df, al_smp_df = smp_df,
                    al_random_tests = random_tests, al_compare_profiles = compare_profiles,
                    al_retrieved_skill = retrieved_skill, al_min_scaling_idx = idx,
                    al_result = result\<rparr>)))))"

fun alignment_loop ::
  "externals \<Rightarrow> config \<Rightarrow> pit_summary_row list \<Rightarrow> pit_density_row list \<Rightarrow>
   search_state \<Rightarrow> smp_profile list \<Rightarrow> (search_state \<times> alignment list) run" where
  "alignment_loop E cfg pit_summary pit_density st [] = Done (st, [])"
| "alignment_loop E cfg pit_summary pit_density st (smp # smp_data) =
     (case align_profile E cfg pit_summary pit_density st smp of
        Hangs \<Rightarrow> Hangs
      | Raised e \<Rightarrow> Raised e
      | Done (st', al) \<Rightarrow>
          (case alignment_loop E cfg pit_summary pit_density st' smp_data of
             Hangs \<Rightarrow> Hangs
           | Raised e \<Rightarrow> Raised e
           | Done (st'', als) \<Rightarrow> Done (st'', al # als)))"

text \<open>
  The files of the calibration directory. \<open>os.listdir\<close> returns the names of a directory
  in an order it does not specify, so the listing a run gets is an input of that run: the
  files, each with the profile that \<open>load_smp\<close> and the external calculations give for
  it, in the order of the listing.
  \<^verbatim>\<open>
  file_list = []
  for file in os.listdir(input_data):
      if file.endswith(".pnt"):
          file_list.append(os.path.join(input_data, file))
  smp_data = [load_smp(file) for file in file_list]
  \<close>
\<close>

record calibration_file =
  cf_name :: string
  cf_profile :: smp_profile

definition endswith :: "string \<Rightarrow> string \<Rightarrow> bool" where
  "endswith name suffix \<longleftrightarrow>
     length suffix \<le> length name \<and> drop (length name - length suffix) name = suffix"

definition smp_data_of :: "calibration_file list \<Rightarrow> smp_profile list" where
  "smp_data_of listing =
     map cf_profile (filter (\<lambda>file. endswith (cf_name file) ''.pnt'') listing)"

text \<open>
  The notebook from its first cell to the end of the loop, with \<open>skip_alignment\<close> off.
  \<open>ambient\<close> is the state of the random source when the notebook starts. The seed is set
  once, before the loop; the loop hands the random source from one profile to the next.
  \<^verbatim>\<open>
  if paper_conditions:
      np.random.seed(2019)
  ...
  smp_data = [load_smp(file) for file in file_list]
  ...
  comparison_df = pd.DataFrame()
  min_scaling_coeff = []
  if not skip_alignment:
      for smp in smp_data:
  \<close>
\<close>

definition part1_alignment ::
  "externals \<Rightarrow> config \<Rightarrow> bool \<Rightarrow> rng \<Rightarrow> pit_summary_row list \<Rightarrow> pit_density_row list \<Rightarrow>
   calibration_file list \<Rightarrow> (search_state \<times> alignment list) run" where
  "part1_alignment E cfg paper_conditions ambient pit_summary pit_density listing =
     alignment_loop E cfg pit_summary pit_density
       \<lparr>st_comparison_df = [], st_min_scaling_coeff = [],
        st_np_random = (if paper_conditions then np_random_seed E 2019 else ambient)\<rparr>
       (smp_data_of listing)"


text \<open>
  A small alignment: one pit with two density measurements, beside a measurement of
  another pit; the profile \<open>smp_example\<close>, resampled to four depths in two sections; two
  candidates. The stand-ins for the external functions: a random source whose first two
  draws are \<open>3 / 4\<close> and all later ones \<open>1 / 2\<close>, the generator \<open>random_stretch\<close>, a scaling
  that multiplies every depth by the mean factor of the plan, and a skill whose \<open>r\<close> is
  the number of points the windows enclose.
\<close>

definition example_config :: config where
  "example_config =
     \<lparr>CUTTER_SIZE = 1, WINDOW_SIZE = 5, H_RESAMPLE = 1, L_RESAMPLE = 2,
      MAX_STRETCH_LAYER = 1 / 2, MAX_STRETCH_OVERALL = 1 / 4, NUM_TESTS = 2\<rparr>"

definition example_externals :: externals where
  "example_externals =
     \<lparr>np_random_seed = (\<lambda>seed i. if i < 2 then 3 / 4 else 1 / 2),
      smpfunc_random_stretch = random_stretch,
      smpfunc_scale_profile =
        (\<lambda>test dists vals l_resample h_resample.
           (map (\<lambda>d. d * (sum_list test / real (length test))) dists, vals)),
      smpfunc_calc_skill =
        (\<lambda>profile cutter_size.
           \<lparr>skill_r = Some (real (sum_list (map col_count_samp profile))),
            skill_rmse = None, skill_rmse_corr = Some 0, skill_mae = None\<rparr>)\<rparr>"

definition example_pit_summary :: "pit_summary_row list" where
  "example_pit_summary = [\<lparr>ps_ID = ''A1'', ps_SMPF = 649, ps_MPD = 4 / 1000\<rparr>]"

definition example_pit_density :: "pit_density_row list" where
  "example_pit_density =
     [\<lparr>pd_ID = ''A1'', pd_TOP = 3 / 10, pd_RHO = Some 215, pd_TYPE = Some ''F'', pd_rest = []\<rparr>,
      \<lparr>pd_ID = ''B2'', pd_TOP = 9 / 10, pd_RHO = Some 300, pd_TYPE = Some ''H'', pd_rest = []\<rparr>,
      \<lparr>pd_ID = ''A1'', pd_TOP = 2 / 10, pd_RHO = Some 225, pd_TYPE = Some ''R'', pd_rest = []\<rparr>]"

definition example_state :: search_state where
  "example_state =
     \<lparr>st_comparison_df = [], st_min_scaling_coeff = [],
      st_np_random = np_random_seed example_externals 2019\<rparr>"


definition file_649 :: calibration_file where
  "file_649 = \<lparr>cf_name = ''S34M0649.pnt'', cf_profile = smp_example\<rparr>"





text \<open>A profile whose file number no snow pit carries.\<close>

definition smp_no_pit :: smp_profile where
  "smp_no_pit = smp_example\<lparr>smp_file_num := 650\<rparr>"

subsection \<open>Filtering of results\<close>

text \<open>
  \<^verbatim>\<open>
  result = comparison_df.dropna()
  result = result[result['count_samp']>=CUTTER_SIZE*2] # Remove comparisons outside the profile
  result = result[~result['TYPE'].isin(['N', 'I'])]
  result['error'] = result['mean_samp']-result['RHO']
  \<close>
  \<open>dropna\<close> keeps the rows without a missing cell. The filtered table is the list of the
  rows kept, each with its \<open>error\<close>.
\<close>

definition has_nan :: "result_row \<Rightarrow> bool" where
  "has_nan row \<longleftrightarrow>
     col_mean_samp row = None \<or> col_RHO row = None \<or> col_TYPE row = None
     \<or> None \<in> set (col_rest row) \<or> col_l row = None \<or> col_force_median row = None"

definition dropna :: "result_row list \<Rightarrow> result_row list" where
  "dropna df = filter (\<lambda>row. \<not> has_nan row) df"

definition filter_results :: "nat \<Rightarrow> result_row list \<Rightarrow> (result_row \<times> pyfloat) list" where
  "filter_results cutter_size comparison_df =
     (let result = dropna comparison_df;
          result = filter (\<lambda>row. col_count_samp row \<ge> cutter_size * 2) result;
          result = filter (\<lambda>row. col_TYPE row \<notin> {Some ''N'', Some ''I''}) result
      in map (\<lambda>row. (row, fsub (col_mean_samp row) (col_RHO row))) result)"

text \<open>
  Two rows of \<open>comparison_df\<close> for a cutter of half height 15: a complete row with
  exactly 30 enclosed points in a faceted layer, and the same row in new snow.
\<close>

definition row_faceted_30 :: result_row where
  "row_faceted_30 =
     \<lparr>col_count_samp = 30, col_mean_samp = Some 310, col_index = 0, col_ID = ''A1'',
      col_TOP = 20, col_RHO = Some 300, col_TYPE = Some ''F'', col_rest = [],
      col_relative_height = 15, col_l = Some 1, col_force_median = Some 2\<rparr>"

definition row_new_snow_30 :: result_row where
  "row_new_snow_30 = row_faceted_30\<lparr>col_TYPE := Some ''N''\<rparr>"

section \<open>Part 3: classification of a profile\<close>

text \<open>
  \<^verbatim>\<open>
  def classify_profile(profile, classifier):
      temp_profile = profile.copy()
      profile_prediction = classifier.predict(temp_profile)
      profile_prediction[profile_prediction=='R'] = 1
      profile_prediction[profile_prediction=='F'] = 2
      profile_prediction[profile_prediction=='H'] = 3
      temp_profile['layer_type'] = profile_prediction.astype(int)
      #Layers must be at least 1 cm
      temp_profile['layer_type'] =  temp_profile['layer_type'].rolling(window=3,
          min_periods=1).apply(lambda x: mode(x)[0]).values.astype(int)
      temp_profile['layer_label'] =  temp_profile['layer_type']
      temp_profile.loc[temp_profile['layer_type'] == 1, 'layer_label'] = 'R'
      ...
      return temp_profile
  \<close>
  The classifier is the trained support-vector model: a function from the features of a
  row to one of the three labels \<open>'R'\<close>, \<open>'F'\<close>, \<open>'H'\<close> (rounded, faceted, depth hoar).
  \<open>scipy.stats.mode\<close> returns the most frequent value,
  the smallest one when several are equally frequent. \<open>rolling(window=3, min_periods=1)\<close>
  without \<open>center=True\<close> is a trailing window: at row \<open>i\<close> it holds the rows \<open>i - 2\<close> to
  \<open>i\<close>, fewer at the start of the profile, and is never empty.
\<close>

datatype layer = Rounded | Faceted | DepthHoar

record feature_row =
  fr_relative_height :: real
  fr_l :: real
  fr_force_median :: real

definition layer_code :: "layer \<Rightarrow> int" where
  "layer_code p = (case p of Rounded \<Rightarrow> 1 | Faceted \<Rightarrow> 2 | DepthHoar \<Rightarrow> 3)"

definition mode :: "int list \<Rightarrow> int" where
  "mode x = fold (\<lambda>v best. if count_list x v > count_list x best then v else best)
                 (sort (remdups x)) (Min (set x))"

definition rolling_window :: "int list \<Rightarrow> nat \<Rightarrow> int list" where
  "rolling_window xs i = drop (i - 2) (take (Suc i) xs)"

definition rolling_mode :: "int list \<Rightarrow> int list" where
  "rolling_mode xs = map (\<lambda>i. mode (rolling_window xs i)) [0..<length xs]"

text \<open>
  The smoothed codes are written back as labels; a code other than 1, 2, 3 cannot come out
  of the mode of such codes, and would stay in the label column as a number.
\<close>

definition label_of_code :: "int \<Rightarrow> layer option" where
  "label_of_code c = (if c = 1 then Some Rounded else if c = 2 then Some Faceted
                      else if c = 3 then Some DepthHoar else None)"

definition classify_profile ::
  "feature_row list \<Rightarrow> (feature_row \<Rightarrow> layer) \<Rightarrow> (feature_row \<times> int \<times> layer option) list" where
  "classify_profile profile classifier =
     (let profile_prediction = map classifier profile;
          layer_type = map layer_code profile_prediction;
          layer_type = rolling_mode layer_type
      in map2 (\<lambda>row c. (row, c, label_of_code c)) profile layer_type)"

text \<open>
  A profile of eleven samples, 2.5 mm apart, and a classifier that calls the sample at one
  depth rounded and every other sample faceted.
\<close>

definition flip_profile :: "feature_row list" where
  "flip_profile =
     map (\<lambda>i. \<lparr>fr_relative_height = 5 / 2 * real i, fr_l = 1, fr_force_median = 1\<rparr>) [0..<11]"

definition flip_classifier :: "real \<Rightarrow> feature_row \<Rightarrow> layer" where
  "flip_classifier depth row = (if fr_relative_height row = depth then Rounded else Faceted)"

text \<open>A classifier that calls the third and the fourth sample rounded, the others faceted.\<close>

definition two_sample_classifier :: "feature_row \<Rightarrow> layer" where
  "two_sample_classifier row =
     (if fr_relative_height row = 5 \<or> fr_relative_height row = 15 / 2 then Rounded
      else Faceted)"

section \<open>Part 5: propagation bias\<close>

text \<open>
  \<^verbatim>\<open>
  def c_in_snow(snow_density, C = 299792458):
      return C*((1+0.51*snow_density/1000)**(-1.5))
  \<close>
  The formula over the real numbers, the exponent \<open>-1.5\<close> a real power (\<open>powr\<close>). The
  notebook computes it in float64, which rounds every operation: nothing below states an
  exact value of it, only where its values go.
\<close>

definition c_in_snow :: "real \<Rightarrow> real \<Rightarrow> real" where
  "c_in_snow snow_density C = C * ((1 + 0.51 * snow_density / 1000) powr (- 1.5))"

definition C_vacuum :: real where
  "C_vacuum = 299792458"


subsection \<open>W99 climatology\<close>

text \<open>
  \<^verbatim>\<open>
  def get_sd_coefs(month):
      return sd_coefs[month-1, 0:6]
  def get_snow_depth(month, l2x, l2y):
      sd = get_sd_coefs(month)
      snow_depth = sd[0] + sd[1]*l2x + sd[2]*l2y + sd[3]*l2x*l2y + sd[4]*l2x*l2x + sd[5]*l2y*l2y
      snow_depth *= 0.01
      return snow_depth
  def get_snow_density(snow_depth, month, l2x, l2y):
      swe = get_swe_coefs(month)
      snow_water_equivalent = swe[0] + swe[1]*l2x + ... + swe[5]*l2y*l2y
      snow_water_equivalent *= 0.01
      snow_density = snow_water_equivalent/snow_depth*water_density
      return snow_density
  \<close>
\<close>

definition sd_coefs :: "real list list" where
  "sd_coefs =
    [[28.01, 0.1270, -1.1833, -0.1164, -0.0051, 0.0243, 7.6, -0.06, 0.07, 4.6],
     [30.28, 0.1056, -0.5908, -0.0263, -0.0049, 0.0044, 7.9, -0.06, 0.08, 5.5],
     [33.89, 0.5486, -0.1996, 0.0280, 0.0216, -0.0176, 9.4, -0.04, 0.10, 6.2],
     [36.80, 0.4046, -0.4005, 0.0256, 0.0024, -0.0641, 9.4, -0.09, 0.09, 6.1],
     [36.93, 0.0214, -1.1795, -0.1076, -0.0244, -0.0142, 10.6, -0.21, 0.09, 6.3],
     [36.59, 0.7021, -1.4819, -0.1195, -0.0009, -0.0603, 14.1, -0.16, 0.12, 8.1],
     [11.02, 0.3008, -1.2591, -0.0811, -0.0043, -0.0959, 9.5, 0.02, 0.10, 6.7],
     [4.64, 0.3100, -0.6350, -0.0655, 0.0059, -0.0005, 4.6, -0.01, 0.05, 3.3],
     [15.81, 0.2119, -1.0292, -0.0868, -0.0177, -0.0723, 7.8, -0.03, 0.06, 3.8],
     [22.66, 0.3594, -1.3483, -0.1063, 0.0051, -0.0577, 8.0, -0.08, 0.06, 4.0],
     [25.57, 0.1496, -1.4643, -0.1409, -0.0079, -0.0258, 7.9, -0.05, 0.07, 4.3],
     [26.67, -0.1876, -1.4229, -0.1413, -0.0316, -0.0029, 8.2, -0.06, 0.07, 4.8]]"

definition swe_coefs :: "real list list" where
  "swe_coefs =
    [[8.37, -0.0270, -0.3400, -0.0319, -0.0056, -0.0005, 2.5, -0.005, 0.024, 1.6],
     [9.43, 0.0058, -0.1309, 0.0017, -0.0021, -0.0072, 2.6, -0.007, 0.028, 1.8],
     [10.74, 0.1618, 0.0276, 0.0213, 0.0076, -0.0125, 3.1, 0.007, 0.032, 2.1],
     [11.67, 0.0841, -0.1328, 0.0081, -0.0003, -0.0301, 3.2, -0.013, 0.032, 2.1],
     [11.80, -0.0043, -0.4284, -0.0380, -0.0071, -0.0063, 3.5, -0.047, 0.033, 2.2],
     [12.48, 0.2084, -0.5739, -0.0468, -0.0023, -0.0253, 4.9, -0.030, 0.044, 2.9],
     [4.01, 0.0970, -0.4930, -0.0333, -0.0026, -0.0343, 3.5, 0.008, 0.037, 2.4],
     [1.08, 0.0712, -0.1450, -0.0155, 0.0014, -0.0000, 1.1, -0.001, 0.012, 0.8],
     [3.84, 0.0393, -0.2107, -0.0182, -0.0053, -0.0190, 2.0, -0.003, 0.016, 1.0],
     [6.24, 0.1158, -0.2803, -0.0215, 0.0015, -0.0176, 2.3, -0.005, 0.021, 1.4],
     [7.54, 0.0567, -0.3201, -0.0284, -0.0032, -0.0129, 2.4, -0.000, 0.023, 1.5],
     [8.00, -0.0540, -0.3650, -0.0362, -0.0112, -0.0035, 2.5, -0.003, 0.024, 1.5]]"

definition earth_radius :: real where
  "earth_radius = 6371000.8"

definition water_density :: real where
  "water_density = 1024.0"

definition get_sd_coefs :: "int \<Rightarrow> py_error + real list" where
  "get_sd_coefs month = bind_err (py_index sd_coefs (month - 1)) (\<lambda>row. Inr (take 6 row))"

definition get_swe_coefs :: "int \<Rightarrow> py_error + real list" where
  "get_swe_coefs month = bind_err (py_index swe_coefs (month - 1)) (\<lambda>row. Inr (take 6 row))"

definition get_snow_depth :: "int \<Rightarrow> real \<Rightarrow> real \<Rightarrow> py_error + real" where
  "get_snow_depth month l2x l2y =
     bind_err (get_sd_coefs month) (\<lambda>sd.
       Inr ((sd ! 0 + sd ! 1 * l2x + sd ! 2 * l2y + sd ! 3 * l2x * l2y
              + sd ! 4 * l2x * l2x + sd ! 5 * l2y * l2y) * 0.01))"

definition get_snow_density :: "real \<Rightarrow> int \<Rightarrow> real \<Rightarrow> real \<Rightarrow> py_error + real" where
  "get_snow_density snow_depth month l2x l2y =
     bind_err (get_swe_coefs month) (\<lambda>swe.
       Inr ((swe ! 0 + swe ! 1 * l2x + swe ! 2 * l2y + swe ! 3 * l2x * l2y
              + swe ! 4 * l2x * l2x + swe ! 5 * l2y * l2y) * 0.01
            / snow_depth * water_density))"

subsection \<open>The bias loop and the bias-assignment cell\<close>

text \<open>
  One entry of \<open>profile_names\<close>, with what the loop reads for it: the rows of \<open>data_df\<close>
  with that file name (their \<open>relative_height\<close> and \<open>density\<close> columns) and the
  projected coordinates \<open>x, y = p(longitude, latitude)\<close> of its summary row (the
  projection is the external \<open>pyproj\<close>). An empty selection raises at
  \<open>profile_df['file_name'].iloc[0]\<close>.
\<close>

record site_profile =
  sp_relative_height :: "real list"
  sp_density :: "real list"
  sp_x :: real
  sp_y :: real

record bias_acc =
  delta_h_static :: "real list"
  delta_h_w99 :: "real list"
  delta_h_smp :: "real list"
  c_cs_w99 :: "real list"
  c_cs_smp :: "real list"
  w99_rho_latlon :: "real list"

definition static_density :: real where
  "static_density = 300"

definition bin_height :: real where
  "bin_height = 0.0025"

definition bias_acc_empty :: bias_acc where
  "bias_acc_empty = \<lparr>delta_h_static = [], delta_h_w99 = [], delta_h_smp = [],
                      c_cs_w99 = [], c_cs_smp = [], w99_rho_latlon = []\<rparr>"

text \<open>The body of \<open>for profile in profile_names\<close>: every list gets one more entry.\<close>

definition bias_step :: "bias_acc \<Rightarrow> site_profile \<Rightarrow> py_error + bias_acc" where
  "bias_step acc profile =
     (if sp_relative_height profile = [] then Inl IndexError
      else
        let w99x = sp_x profile / (earth_radius * pi / 180);
            w99y = sp_y profile / (earth_radius * pi / 180)
        in bind_err (get_snow_depth 4 w99x w99y) (\<lambda>w99_sd.
           bind_err (get_snow_density w99_sd 4 w99x w99y) (\<lambda>w99_rho.
             let profile_heights = map (\<lambda>h. h / 1000) (sp_relative_height profile);
                 profile_density = sp_density profile;
                 bin_height_array = replicate (length profile_heights) bin_height;
                 profile_thickness = Max (set profile_heights)
             in Inr \<lparr>
                  delta_h_static = delta_h_static acc @
                    [profile_thickness * (C_vacuum / c_in_snow static_density C_vacuum - 1)],
                  delta_h_w99 = delta_h_w99 acc @
                    [profile_thickness * (C_vacuum / c_in_snow w99_rho C_vacuum - 1)],
                  delta_h_smp = delta_h_smp acc @
                    [sum_list (map2 (\<lambda>b d. b * (C_vacuum / c_in_snow d C_vacuum - 1))
                                    bin_height_array profile_density)],
                  c_cs_w99 = c_cs_w99 acc @ [c_in_snow w99_rho C_vacuum / C_vacuum],
                  c_cs_smp = c_cs_smp acc @
                    [sum_list (map (\<lambda>d. c_in_snow d C_vacuum / C_vacuum) profile_density)
                       / real (length profile_density)],
                  w99_rho_latlon = w99_rho_latlon acc @ [w99_rho]\<rparr>)))"

fun bias_loop :: "bias_acc \<Rightarrow> site_profile list \<Rightarrow> py_error + bias_acc" where
  "bias_loop acc [] = Inr acc"
| "bias_loop acc (profile # rest) =
     (case bias_step acc profile of Inl e \<Rightarrow> Inl e | Inr acc' \<Rightarrow> bias_loop acc' rest)"

text \<open>
  The cell after the loop. \<open>summary_df\<close> is represented by its number of rows and the
  columns the cell adds; assigning an array whose length is not the number of rows raises
  \<open>ValueError\<close>.
  \<^verbatim>\<open>
  summary_df['delta_h_smp'] = np.array(delta_h_smp)
  summary_df['delta_h_static'] = np.array(delta_h_static)
  summary_df['delta_h_w99'] = np.array(delta_h_static)
  summary_df['delta_h_error'] = summary_df['delta_h_smp'] - summary_df['delta_h_w99']
  summary_df['w99_rho'] = w99_rho_latlon
  summary_df['c_cs_w99'] = c_cs_w99
  summary_df['c_cs_smp'] = c_cs_smp
  summary_df['delta_h_error_static'] = summary_df['delta_h_smp'] - summary_df['delta_h_static']
  \<close>
\<close>

record summary_bias =
  col_delta_h_smp :: "real list"
  col_delta_h_static :: "real list"
  col_delta_h_w99 :: "real list"
  col_delta_h_error :: "real list"
  col_w99_rho :: "real list"
  col_c_cs_w99 :: "real list"
  col_c_cs_smp :: "real list"
  col_delta_h_error_static :: "real list"

definition set_column :: "nat \<Rightarrow> real list \<Rightarrow> py_error + real list" where
  "set_column nrows values = (if length values = nrows then Inr values else Inl ValueError)"

definition assign_bias :: "nat \<Rightarrow> bias_acc \<Rightarrow> py_error + summary_bias" where
  "assign_bias nrows acc =
     bind_err (set_column nrows (delta_h_smp acc)) (\<lambda>smp.
     bind_err (set_column nrows (delta_h_static acc)) (\<lambda>static.
     bind_err (set_column nrows (delta_h_static acc)) (\<lambda>w99.
     bind_err (set_column nrows (map2 (-) smp w99)) (\<lambda>err.
     bind_err (set_column nrows (w99_rho_latlon acc)) (\<lambda>rho.
     bind_err (set_column nrows (c_cs_w99 acc)) (\<lambda>cw.
     bind_err (set_column nrows (c_cs_smp acc)) (\<lambda>cs.
     bind_err (set_column nrows (map2 (-) smp static)) (\<lambda>err_static.
       Inr \<lparr>col_delta_h_smp = smp, col_delta_h_static = static, col_delta_h_w99 = w99,
            col_delta_h_error = err, col_w99_rho = rho, col_c_cs_w99 = cw,
            col_c_cs_smp = cs, col_delta_h_error_static = err_static\<rparr>))))))))"

text \<open>A one-profile input for the bias loop: two bins, at the pole of the projection.\<close>

definition site_example :: site_profile where
  "site_example =
     \<lparr>sp_relative_height = [0, 5 / 2], sp_density = [300, 250], sp_x = 0, sp_y = 0\<rparr>"

section \<open>Theorems\<close>

subsection \<open>Part 1: resampling\<close>

lemma np_interp_Inr:
  assumes "xp \<noteq> []" "length fp = length xp"
  shows "np_interp x xp fp = Inr (map (\<lambda>v. interp1 v xp fp) x)"
  using assms by (simp add: np_interp_def)

lemma interp1_beyond_last: "last xp < x \<Longrightarrow> interp1 x xp fp = last fp"
  by (simp add: interp1_def)

text \<open>
  C7. For a profile with at least one sample, whose columns have one length, and a
  non-zero resampling step, the resampling does not fail; density, median force and
  structural length are interpolated at the same depths \<open>depth_array\<close>, so the three
  arrays have its length and agree index by index; and at every depth beyond the last
  recorded depth of the profile each of them is the last recorded value.
\<close>

theorem resample_flat_extrapolation:
  assumes "distance smp \<noteq> []"
      and "length (P2015_density smp) = length (distance smp)"
      and "length (force_median smp) = length (distance smp)"
      and "length (L2012_L smp) = length (distance smp)"
      and "h \<noteq> 0"
  shows "\<exists>df. resample_profile h smp_height_diff smp = Inr df
     \<and> length (df_density df) = length (df_distance df)
     \<and> length (df_force_median df) = length (df_distance df)
     \<and> length (df_l df) = length (df_distance df)
     \<and> (\<forall>i < length (df_distance df).
          df_density df ! i = interp1 (df_distance df ! i) (distance smp) (P2015_density smp)
        \<and> df_force_median df ! i = interp1 (df_distance df ! i) (distance smp) (force_median smp)
        \<and> df_l df ! i = interp1 (df_distance df ! i) (distance smp) (L2012_L smp))
     \<and> (\<forall>i < length (df_distance df). last (distance smp) < df_distance df ! i \<longrightarrow>
          df_density df ! i = last (P2015_density smp)
        \<and> df_force_median df ! i = last (force_median smp)
        \<and> df_l df ! i = last (L2012_L smp))"
proof -
  obtain depth_array where d: "np_arange (Max (set (distance smp)) + smp_height_diff) h = Inr depth_array"
    using assms(5) by (simp add: np_arange_def)
  let ?df = "\<lparr>df_distance = depth_array,
              df_density = map (\<lambda>v. interp1 v (distance smp) (P2015_density smp)) depth_array,
              df_force_median = map (\<lambda>v. interp1 v (distance smp) (force_median smp)) depth_array,
              df_l = map (\<lambda>v. interp1 v (distance smp) (L2012_L smp)) depth_array\<rparr>"
  have r: "resample_profile h smp_height_diff smp = Inr ?df"
    using assms(1-4) d by (simp add: resample_profile_def bind_err_def np_interp_Inr)
  have "\<forall>i < length depth_array. last (distance smp) < depth_array ! i \<longrightarrow>
          interp1 (depth_array ! i) (distance smp) (P2015_density smp) = last (P2015_density smp)
        \<and> interp1 (depth_array ! i) (distance smp) (force_median smp) = last (force_median smp)
        \<and> interp1 (depth_array ! i) (distance smp) (L2012_L smp) = last (L2012_L smp)"
    by (simp add: interp1_beyond_last)
  then show ?thesis using r by simp
qed

lemma upt_0_4: "[0..<4] = [0, 1, 2, 3]"
  by code_simp

lemma resample_smp_example:
  "resample_profile 10 20 smp_example =
        Inr \<lparr>df_distance = [0, 10, 20, 30], df_density = [200, 300, 250, 250],
             df_force_median = [1, 2, 4, 4], df_l = [3, 2, 1, 1]\<rparr>"
  by (simp add: smp_example_def resample_profile_def bind_err_def np_arange_def np_interp_def
        interp1_def upt_0_4)

theorem resample_flat_extrapolation_witness:
  "distance smp_example \<noteq> []
   \<and> length (P2015_density smp_example) = length (distance smp_example)
   \<and> length (force_median smp_example) = length (distance smp_example)
   \<and> length (L2012_L smp_example) = length (distance smp_example)
   \<and> (10::real) \<noteq> 0
   \<and> (\<exists>df. resample_profile 10 20 smp_example = Inr df
        \<and> df_distance df = [0, 10, 20, 30]
        \<and> last (distance smp_example) < df_distance df ! 3
        \<and> df_density df ! 3 = last (P2015_density smp_example)
        \<and> df_force_median df ! 3 = last (force_median smp_example)
        \<and> df_l df ! 3 = last (L2012_L smp_example))"
proof -
  have h: "distance smp_example \<noteq> []"
    "length (P2015_density smp_example) = length (distance smp_example)"
    "length (force_median smp_example) = length (distance smp_example)"
    "length (L2012_L smp_example) = length (distance smp_example)"
    "(10::real) \<noteq> 0"
    by (simp_all add: smp_example_def)
  obtain df where r: "resample_profile 10 20 smp_example = Inr df"
    and f: "\<forall>i < length (df_distance df). last (distance smp_example) < df_distance df ! i \<longrightarrow>
          df_density df ! i = last (P2015_density smp_example)
        \<and> df_force_median df ! i = last (force_median smp_example)
        \<and> df_l df ! i = last (L2012_L smp_example)"
    using resample_flat_extrapolation [OF h, of 20] by blast
  have d: "df_distance df = [0, 10, 20, 30]"
    using r unfolding resample_smp_example by auto
  have b: "last (distance smp_example) < df_distance df ! 3"
    by (simp add: d smp_example_def)
  have "3 < length (df_distance df)"
    by (simp add: d)
  with f b have "df_density df ! 3 = last (P2015_density smp_example)
        \<and> df_force_median df ! 3 = last (force_median smp_example)
        \<and> df_l df ! 3 = last (L2012_L smp_example)"
    by blast
  with h r d b show ?thesis by blast
qed

subsection \<open>Part 1: the stretch plans\<close>

lemma uniform_length: "length (fst (uniform low high n g)) = n"
  by (simp add: uniform_def)

lemma uniform_bounds:
  assumes "\<forall>i. 0 \<le> g i \<and> g i \<le> 1" "low \<le> high" "f \<in> set (fst (uniform low high n g))"
  shows "low \<le> f \<and> f \<le> high"
proof -
  from assms(3) obtain i where f: "f = low + (high - low) * g i"
    by (auto simp: uniform_def)
  have "0 \<le> (high - low) * g i"
    using assms(1,2) by simp
  moreover have "(high - low) * g i \<le> (high - low) * 1"
    using assms(1,2) by (intro mult_left_mono) auto
  ultimately show ?thesis using f by simp
qed

lemma uniform_rest_unit:
  assumes "\<forall>i. 0 \<le> g i \<and> g i \<le> 1"
  shows "\<forall>i. 0 \<le> snd (uniform low high n g) i \<and> snd (uniform low high n g) i \<le> 1"
  using assms by (simp add: uniform_def)

lemmas random_stretch_induct =
  random_stretch.raw_induct [where xa = "(((x, overall), layer), g)" for x overall layer g,
    unfolded prod.case, rotated, consumes 1, case_names step]

lemma random_stretch_returns_valid:
  assumes "random_stretch x overall layer g = Some y"
  shows "(\<forall>i. 0 \<le> g i \<and> g i \<le> 1) \<longrightarrow> 0 \<le> layer \<longrightarrow>
         length (fst y) = x \<and> (\<forall>f \<in> set (fst y). 1 - layer \<le> f \<and> f \<le> 1 + layer)
         \<and> \<bar>net_stretch 1 (real x) (fst y)\<bar> \<le> overall
         \<and> (\<forall>i. 0 \<le> snd y i \<and> snd y i \<le> 1)"
  using assms
proof (induction rule: random_stretch_induct)
  case (step rs x overall layer g y)
  obtain p h where u: "uniform (1 - layer) (1 + layer) x g = (p, h)"
    by (cases "uniform (1 - layer) (1 + layer) x g")
  show ?case
  proof (intro impI)
    assume g: "\<forall>i. 0 \<le> g i \<and> g i \<le> 1" and l: "0 \<le> layer"
    have hu: "\<forall>i. 0 \<le> h i \<and> h i \<le> 1"
      using uniform_rest_unit [OF g, of "1 - layer" "1 + layer" x] u by simp
    show "length (fst y) = x \<and> (\<forall>f \<in> set (fst y). 1 - layer \<le> f \<and> f \<le> 1 + layer)
         \<and> \<bar>net_stretch 1 (real x) (fst y)\<bar> \<le> overall
         \<and> (\<forall>i. 0 \<le> snd y i \<and> snd y i \<le> 1)"
    proof (cases "\<bar>net_stretch 1 (real x) p\<bar> \<le> overall")
      case True
      with step(2) u have e: "y = (p, h)" by simp
      have "length p = x"
        using uniform_length [of "1 - layer" "1 + layer" x g] u by simp
      moreover have "\<forall>f \<in> set p. 1 - layer \<le> f \<and> f \<le> 1 + layer"
        using uniform_bounds [OF g, of "1 - layer" "1 + layer" _ x] l u by simp
      ultimately show ?thesis
        using True e hu by simp
    next
      case False
      with step(2) u have r: "rs x overall layer h = Some y" by simp
      from step(1) [OF r] hu l show ?thesis by blast
    qed
  qed
qed

lemma upt_0_2: "[0..<2] = [0, 1]"
  by code_simp

lemma random_stretch_g_reject: "map_option fst (random_stretch 2 (1 / 4) (1 / 2) g_reject) = Some [1, 1]"
  apply (subst random_stretch.simps)
  apply (simp add: uniform_def net_stretch_def g_reject_def upt_0_2)
  apply (subst random_stretch.simps)
  apply (simp add: uniform_def net_stretch_def g_reject_def upt_0_2)
  done

lemma random_stretch_g_edge: "map_option fst (random_stretch 2 (1 / 4) (1 / 2) g_edge) = Some [5 / 4, 5 / 4]"
  apply (subst random_stretch.simps)
  apply (simp add: uniform_def net_stretch_def g_edge_def upt_0_2)
  done


lemma g_reject_unit: "\<forall>i. 0 \<le> g_reject i \<and> g_reject i \<le> 1"
  by (simp add: g_reject_def)

lemma g_edge_unit: "\<forall>i. 0 \<le> g_edge i \<and> g_edge i \<le> 1"
  by (simp add: g_edge_def)

text \<open>
  C6. With a random source of unit variates and a non-negative layer bound, every plan
  the generator returns has one factor per segment, each in
  \<open>[1 - maxLayerStretch, 1 + maxLayerStretch]\<close>, and a net stretch of absolute value at
  most \<open>maxOverallStretch\<close>. A drawn plan whose net stretch is exactly the bound is
  returned as drawn; one whose net stretch exceeds it is not returned: the result is that
  of generating afresh from the rest of the random stream.
\<close>

theorem stretch_plan_valid:
  assumes "\<forall>i. 0 \<le> g i \<and> g i \<le> 1" and "0 \<le> layer"
  shows "(\<forall>plan g'. random_stretch x overall layer g = Some (plan, g') \<longrightarrow>
            length plan = x
            \<and> (\<forall>f \<in> set plan. 1 - layer \<le> f \<and> f \<le> 1 + layer)
            \<and> \<bar>net_stretch 1 (real x) plan\<bar> \<le> overall)
       \<and> (\<bar>net_stretch 1 (real x) (fst (uniform (1 - layer) (1 + layer) x g))\<bar> = overall \<longrightarrow>
            random_stretch x overall layer g = Some (uniform (1 - layer) (1 + layer) x g))
       \<and> (overall < \<bar>net_stretch 1 (real x) (fst (uniform (1 - layer) (1 + layer) x g))\<bar> \<longrightarrow>
            random_stretch x overall layer g =
              random_stretch x overall layer (snd (uniform (1 - layer) (1 + layer) x g))
            \<and> map_option fst (random_stretch x overall layer g)
                \<noteq> Some (fst (uniform (1 - layer) (1 + layer) x g)))"
proof -
  let ?c = "uniform (1 - layer) (1 + layer) x g"
  have v: "\<forall>plan g'. random_stretch x overall layer g = Some (plan, g') \<longrightarrow>
            length plan = x
            \<and> (\<forall>f \<in> set plan. 1 - layer \<le> f \<and> f \<le> 1 + layer)
            \<and> \<bar>net_stretch 1 (real x) plan\<bar> \<le> overall"
    using random_stretch_returns_valid [of x overall layer g] assms by fastforce
  have e: "\<bar>net_stretch 1 (real x) (fst ?c)\<bar> = overall \<longrightarrow>
            random_stretch x overall layer g = Some ?c"
    by (subst random_stretch.simps) (simp add: case_prod_beta)
  have r: "overall < \<bar>net_stretch 1 (real x) (fst ?c)\<bar> \<longrightarrow>
            random_stretch x overall layer g = random_stretch x overall layer (snd ?c)"
    by (subst random_stretch.simps) (simp add: case_prod_beta)
  have n: "overall < \<bar>net_stretch 1 (real x) (fst ?c)\<bar> \<longrightarrow>
            map_option fst (random_stretch x overall layer g) \<noteq> Some (fst ?c)"
    using v by fastforce
  show ?thesis using v e r n by blast
qed

theorem stretch_plan_valid_witness:
  "(\<forall>i. 0 \<le> g_reject i \<and> g_reject i \<le> 1) \<and> (0::real) \<le> 1 / 2
   \<and> fst (uniform (1 - 1 / 2) (1 + 1 / 2) 2 g_reject) = [3 / 2, 3 / 2]
   \<and> 1 / 4 < \<bar>net_stretch 1 (real 2) [3 / 2, 3 / 2]\<bar>
   \<and> map_option fst (random_stretch 2 (1 / 4) (1 / 2) g_reject) = Some [1, 1]
   \<and> \<bar>net_stretch 1 (real 2) [1, 1]\<bar> \<le> 1 / 4
   \<and> (\<forall>i. 0 \<le> g_edge i \<and> g_edge i \<le> 1)
   \<and> \<bar>net_stretch 1 (real 2) (fst (uniform (1 - 1 / 2) (1 + 1 / 2) 2 g_edge))\<bar> = 1 / 4
   \<and> random_stretch 2 (1 / 4) (1 / 2) g_edge = Some (uniform (1 - 1 / 2) (1 + 1 / 2) 2 g_edge)"
proof -
  have u: "fst (uniform (1 - 1 / 2) (1 + 1 / 2) 2 g_reject) = [3 / 2, 3 / 2]"
    by (simp add: uniform_def g_reject_def upt_0_2)
  have b: "\<bar>net_stretch 1 (real 2) (fst (uniform (1 - 1 / 2) (1 + 1 / 2) 2 g_edge))\<bar> = 1 / 4"
    by (simp add: uniform_def g_edge_def upt_0_2 net_stretch_def)
  have a: "random_stretch 2 (1 / 4) (1 / 2) g_edge = Some (uniform (1 - 1 / 2) (1 + 1 / 2) 2 g_edge)"
    using stretch_plan_valid [OF g_edge_unit, of "1 / 2" 2 "1 / 4"] b by simp
  have n: "\<bar>net_stretch 1 (real 2) [1, 1]\<bar> \<le> 1 / 4"
    using stretch_plan_valid [OF g_reject_unit, of "1 / 2" 2 "1 / 4"] random_stretch_g_reject by auto
  have "1 / 4 < \<bar>net_stretch 1 (real 2) [3 / 2, 3 / 2]\<bar>"
    by (simp add: net_stretch_def)
  with u b a n random_stretch_g_reject g_reject_unit g_edge_unit show ?thesis by simp
qed

subsection \<open>Part 1: one iteration of the alignment loop, and the ranking\<close>

lemma align_profile_Done:
  assumes "align_profile E cfg pit_summary pit_density st smp = Done (st', al)"
  shows "\<exists>pit. filter (\<lambda>pit. ps_SMPF pit = smp_file_num smp) pit_summary = [pit]
           \<and> al_density_df al = density_df_of (CUTTER_SIZE cfg) pit_density (ps_ID pit)
           \<and> resample_profile (H_RESAMPLE cfg)
                 (ps_MPD pit * 1000 - Max (set (distance smp))) smp = Inr (al_smp_df al)"
    and "L_RESAMPLE cfg \<noteq> 0"
    and "random_tests_of E (NUM_TESTS cfg)
           (nat \<lceil>real (length (df_distance (al_smp_df al))) / real (L_RESAMPLE cfg)\<rceil>)
           (MAX_STRETCH_OVERALL cfg) (MAX_STRETCH_LAYER cfg) (st_np_random st)
         = Some (al_random_tests al, st_np_random st')"
    and "al_compare_profiles al =
           map (\<lambda>test. case smpfunc_scale_profile E test (df_distance (al_smp_df al))
                              (df_density (al_smp_df al)) (L_RESAMPLE cfg) (H_RESAMPLE cfg) of
                  (dists, rho) \<Rightarrow>
                    concat_columns
                      (extract_samples dists rho (map dd_relative_height (al_density_df al))
                         (real (CUTTER_SIZE cfg)))
                      (al_density_df al))
               (al_random_tests al)"
    and "al_retrieved_skill al =
           map (\<lambda>profile. smpfunc_calc_skill E profile (CUTTER_SIZE cfg)) (al_compare_profiles al)"
    and "min_scaling_idx (al_retrieved_skill al) = Inr (al_min_scaling_idx al)"
    and "st_min_scaling_coeff st' =
           st_min_scaling_coeff st @ [al_random_tests al ! al_min_scaling_idx al]"
    and "al_result al =
           assign_l_force_median (al_compare_profiles al ! al_min_scaling_idx al)
             (map mean_samp
                (extract_samples
                   (fst (smpfunc_scale_profile E (al_random_tests al ! al_min_scaling_idx al)
                           (df_distance (al_smp_df al)) (df_force_median (al_smp_df al))
                           (L_RESAMPLE cfg) (H_RESAMPLE cfg)))
                   (snd (smpfunc_scale_profile E (al_random_tests al ! al_min_scaling_idx al)
                           (df_distance (al_smp_df al)) (df_l (al_smp_df al))
                           (L_RESAMPLE cfg) (H_RESAMPLE cfg)))
                   (map dd_relative_height (al_density_df al)) (real (CUTTER_SIZE cfg))))
             (map mean_samp
                (extract_samples
                   (fst (smpfunc_scale_profile E (al_random_tests al ! al_min_scaling_idx al)
                           (df_distance (al_smp_df al)) (df_force_median (al_smp_df al))
                           (L_RESAMPLE cfg) (H_RESAMPLE cfg)))
                   (snd (smpfunc_scale_profile E (al_random_tests al ! al_min_scaling_idx al)
                           (df_distance (al_smp_df al)) (df_force_median (al_smp_df al))
                           (L_RESAMPLE cfg) (H_RESAMPLE cfg)))
                   (map dd_relative_height (al_density_df al)) (real (CUTTER_SIZE cfg))))"
    and "st_comparison_df st' = st_comparison_df st @ al_result al"
  using assms
  unfolding align_profile_def bind_run_def of_err_def of_opt_def Let_def
  by (auto simp: comp_def split_def split: list.splits if_splits run.splits sum.splits option.splits)


lemma desc_before_irrefl: "\<not> desc_before a a"
  by (simp add: desc_before_def split: option.splits)

lemma asc_before_irrefl: "\<not> asc_before a a"
  by (simp add: asc_before_def split: option.splits)

lemma desc_before_trans: "desc_before a b \<Longrightarrow> desc_before b c \<Longrightarrow> desc_before a c"
  by (auto simp: desc_before_def split: option.splits)

lemma asc_before_trans: "asc_before a b \<Longrightarrow> asc_before b c \<Longrightarrow> asc_before a c"
  by (auto simp: asc_before_def split: option.splits)

lemma desc_before_total: "desc_before a b \<or> a = b \<or> desc_before b a"
  by (auto simp: desc_before_def split: option.splits)

lemma asc_before_total: "asc_before a b \<or> a = b \<or> asc_before b a"
  by (auto simp: asc_before_def split: option.splits)

lemma skill_before_asym: "skill_before s t \<Longrightarrow> \<not> skill_before t s"
  unfolding skill_before_def
  using desc_before_irrefl desc_before_trans asc_before_irrefl asc_before_trans by metis

lemma skill_before_irrefl: "\<not> skill_before s s"
  using skill_before_asym by blast

lemma skill_before_negtrans:
  assumes "\<not> skill_before a b" "\<not> skill_before b c"
  shows "\<not> skill_before a c"
proof
  assume ac: "skill_before a c"
  from assms(1) have 1: "\<not> desc_before (skill_r a) (skill_r b)"
    and 2: "skill_r a = skill_r b \<Longrightarrow> \<not> asc_before (skill_rmse_corr a) (skill_rmse_corr b)"
    by (auto simp: skill_before_def)
  from assms(2) have 3: "\<not> desc_before (skill_r b) (skill_r c)"
    and 4: "skill_r b = skill_r c \<Longrightarrow> \<not> asc_before (skill_rmse_corr b) (skill_rmse_corr c)"
    by (auto simp: skill_before_def)
  from ac consider "desc_before (skill_r a) (skill_r c)"
    | "skill_r a = skill_r c" "asc_before (skill_rmse_corr a) (skill_rmse_corr c)"
    by (auto simp: skill_before_def)
  then show False
  proof cases
    case 1
    then show ?thesis
      using \<open>\<not> desc_before (skill_r a) (skill_r b)\<close> 3
        desc_before_total [of "skill_r a" "skill_r b"] desc_before_total [of "skill_r b" "skill_r c"]
        desc_before_trans desc_before_irrefl by metis
  next
    case 2
    have ab: "skill_r a = skill_r b"
      using 2(1) \<open>\<not> desc_before (skill_r a) (skill_r b)\<close> 3
        desc_before_total [of "skill_r a" "skill_r b"] by metis
    then have bc: "skill_r b = skill_r c" using 2(1) by simp
    show ?thesis
      using \<open>skill_r a = skill_r b \<Longrightarrow> \<not> asc_before (skill_rmse_corr a) (skill_rmse_corr b)\<close>
        [OF ab] 4 [OF bc] 2(2)
        asc_before_total [of "skill_rmse_corr a" "skill_rmse_corr b"]
        asc_before_total [of "skill_rmse_corr b" "skill_rmse_corr c"]
        asc_before_trans asc_before_irrefl by metis
  qed
qed

lemma insert_row_not_Nil: "insert_row row rows \<noteq> []"
  by (cases rows) simp_all

lemma hd_insert_row:
  "hd (insert_row row rows) =
     (if rows = [] then row
      else if skill_before (snd (hd rows)) (snd row) then hd rows else row)"
  by (cases rows) simp_all

lemma foldr_insert_row_Nil: "foldr insert_row rows [] = [] \<longleftrightarrow> rows = []"
  by (cases rows) (simp_all add: insert_row_not_Nil)

lemma top_ranked:
  assumes "rows \<noteq> []" "sorted_wrt (\<lambda>a b. fst a < fst b) rows"
  shows "hd (foldr insert_row rows []) \<in> set rows
       \<and> (\<forall>y \<in> set rows. \<not> skill_before (snd y) (snd (hd (foldr insert_row rows [])))
             \<and> (\<not> skill_before (snd (hd (foldr insert_row rows []))) (snd y)
                  \<longrightarrow> fst (hd (foldr insert_row rows [])) \<le> fst y))"
  using assms
proof (induction rows)
  case Nil
  then show ?case by simp
next
  case (Cons x xs)
  show ?case
  proof (cases "xs = []")
    case True
    then show ?thesis
      using skill_before_irrefl by auto
  next
    case False
    let ?t = "hd (foldr insert_row xs [])"
    have s: "sorted_wrt (\<lambda>a b. fst a < fst b) xs" and lt: "\<forall>y \<in> set xs. fst x < fst y"
      using Cons.prems(2) by simp_all
    note ih = Cons.IH [OF False s]
    have ne: "foldr insert_row xs [] \<noteq> []"
      using False by (simp add: foldr_insert_row_Nil)
    show ?thesis
    proof (cases "skill_before (snd ?t) (snd x)")
      case True
      then have h: "hd (foldr insert_row (x # xs) []) = ?t"
        using ne by (simp add: hd_insert_row)
      show ?thesis
        unfolding h using ih True skill_before_asym by auto
    next
      case nb: False
      then have h: "hd (foldr insert_row (x # xs) []) = x"
        using ne by (simp add: hd_insert_row)
      have "\<not> skill_before (snd y) (snd x)" if "y \<in> set xs" for y
        using ih that nb skill_before_negtrans by blast
      then show ?thesis
        unfolding h using lt skill_before_irrefl by (auto simp: less_imp_le)
    qed
  qed
qed

lemma sorted_wrt_enumerate: "sorted_wrt (\<lambda>a b. fst a < fst b) (zip [0..<length df] df)"
proof -
  have "sorted_wrt (<) (map fst (zip [0..<length df] df))"
    by (simp add: sorted_wrt_iff_nth_less)
  then show ?thesis
    by (simp only: sorted_wrt_map)
qed

lemma min_scaling_idx_top:
  assumes "min_scaling_idx df = Inr idx"
  shows "idx < length df"
    and "\<forall>j < length df. \<not> skill_before (df ! j) (df ! idx)"
    and "\<forall>j < idx. skill_before (df ! idx) (df ! j)"
proof -
  let ?rows = "zip [0..<length df] df"
  let ?t = "hd (foldr insert_row ?rows [])"
  have ne: "foldr insert_row ?rows [] \<noteq> []"
    using assms by (auto simp: min_scaling_idx_def sort_values_def split: list.splits)
  then have r: "?rows \<noteq> []"
    by (simp add: foldr_insert_row_Nil)
  have i: "idx = fst ?t"
    using assms ne
    by (cases "foldr insert_row ?rows []") (auto simp: min_scaling_idx_def sort_values_def)
  note t = top_ranked [OF r sorted_wrt_enumerate]
  from t have m: "?t \<in> set ?rows" by blast
  then have "fst ?t < length df" "snd ?t = df ! fst ?t"
    by (auto simp: set_zip)
  then have l: "idx < length df" and s: "snd ?t = df ! idx"
    using i by simp_all
  show "idx < length df" by (rule l)
  have a: "\<not> skill_before (df ! j) (df ! idx) \<and> (\<not> skill_before (df ! idx) (df ! j) \<longrightarrow> idx \<le> j)"
    if "j < length df" for j
  proof -
    have "(j, df ! j) \<in> set ?rows"
      using that by (auto simp: set_zip intro!: exI [of _ j])
    with t show ?thesis
      unfolding s i [symmetric] by fastforce
  qed
  then show "\<forall>j < length df. \<not> skill_before (df ! j) (df ! idx)"
    by blast
  show "\<forall>j < idx. skill_before (df ! idx) (df ! j)"
    using a l by (meson less_trans not_less)
qed


lemma upt_0_3: "[0..<3] = [0, 1, 2]"
  by code_simp

lemma example_resample:
  "resample_profile 1 (4 / 1000 * 1000 - Max (set (distance smp_example))) smp_example =
     Inr \<lparr>df_distance = [0, 1, 2, 3], df_density = [200, 210, 220, 230],
          df_force_median = [1, 11 / 10, 12 / 10, 13 / 10],
          df_l = [3, 29 / 10, 28 / 10, 27 / 10]\<rparr>"
  by (simp add: smp_example_def resample_profile_def bind_err_def np_arange_def np_interp_def
        interp1_def upt_0_4)

lemma example_density_df:
  "density_df_of 1 example_pit_density ''A1'' =
     [\<lparr>pd_ID = ''A1'', pd_TOP = 3 / 10, pd_RHO = Some 215, pd_TYPE = Some ''F'', pd_rest = [],
       dd_index = 0, dd_relative_height = 1\<rparr>,
      \<lparr>pd_ID = ''A1'', pd_TOP = 2 / 10, pd_RHO = Some 225, pd_TYPE = Some ''R'', pd_rest = [],
       dd_index = 2, dd_relative_height = 2\<rparr>]"
  by (simp add: density_df_of_def example_pit_density_def upt_0_3 Let_def)

lemma example_tests:
  "random_tests_of example_externals 2 2 (1 / 4) (1 / 2) (\<lambda>i. if i < 2 then 3 / 4 else 1 / 2)
     = Some ([[5 / 4, 5 / 4], [1, 1]], \<lambda>i. 1 / 2)"
  apply (simp add: numeral_2_eq_2 example_externals_def)
  apply (subst random_stretch.simps)
  apply (simp add: uniform_def net_stretch_def upt_0_2 numeral_2_eq_2 [symmetric])
  apply (subst random_stretch.simps)
  apply (simp add: uniform_def net_stretch_def upt_0_2 numeral_2_eq_2 [symmetric])
  done


lemma example_min_idx:
  "min_scaling_idx
     [\<lparr>skill_r = Some 4, skill_rmse = None, skill_rmse_corr = Some 0, skill_mae = None\<rparr>,
      \<lparr>skill_r = Some 6, skill_rmse = None, skill_rmse_corr = Some 0, skill_mae = None\<rparr>] = Inr 1"
  by (simp add: min_scaling_idx_def sort_values_def upt_0_2 skill_before_def desc_before_def
        asc_before_def)


lemma align_profile_DoneI:
  assumes "filter (\<lambda>pit. ps_SMPF pit = smp_file_num smp) pit_summary = [pit]"
      and "resample_profile (H_RESAMPLE cfg)
             (ps_MPD pit * 1000 - Max (set (distance smp))) smp = Inr smp_df"
      and "L_RESAMPLE cfg \<noteq> 0"
      and "random_tests_of E (NUM_TESTS cfg)
             (nat \<lceil>real (length (df_distance smp_df)) / real (L_RESAMPLE cfg)\<rceil>)
             (MAX_STRETCH_OVERALL cfg) (MAX_STRETCH_LAYER cfg) (st_np_random st)
           = Some (tests, g')"
      and "min_scaling_idx
             (map (\<lambda>profile. smpfunc_calc_skill E profile (CUTTER_SIZE cfg))
                (map (\<lambda>(dists, rho).
                        concat_columns
                          (extract_samples dists rho
                             (map dd_relative_height
                                (density_df_of (CUTTER_SIZE cfg) pit_density (ps_ID pit)))
                             (real (CUTTER_SIZE cfg)))
                          (density_df_of (CUTTER_SIZE cfg) pit_density (ps_ID pit)))
                   (map (\<lambda>test. smpfunc_scale_profile E test (df_distance smp_df)
                                  (df_density smp_df) (L_RESAMPLE cfg) (H_RESAMPLE cfg))
                      tests)))
           = Inr idx"
  shows "\<exists>st' al. align_profile E cfg pit_summary pit_density st smp = Done (st', al)
           \<and> al_smp_df al = smp_df \<and> al_random_tests al = tests
           \<and> al_min_scaling_idx al = idx \<and> st_np_random st' = g'"
  using assms
  unfolding align_profile_def bind_run_def of_err_def of_opt_def Let_def
  by (simp add: split_def)

lemma example_pit:
  "filter (\<lambda>pit. ps_SMPF pit = smp_file_num smp_example) example_pit_summary
     = [\<lparr>ps_ID = ''A1'', ps_SMPF = 649, ps_MPD = 4 / 1000\<rparr>]"
  by (simp add: example_pit_summary_def smp_example_def)

lemma example_skills:
  "map (\<lambda>profile. smpfunc_calc_skill example_externals profile 1)
                (map (\<lambda>(dists, rho).
                        concat_columns
                          (extract_samples dists rho
                             (map dd_relative_height
                                (density_df_of 1 example_pit_density ''A1''))
                             (real 1))
                          (density_df_of 1 example_pit_density ''A1''))
                   (map (\<lambda>test. smpfunc_scale_profile example_externals test [0, 1, 2, 3]
                                  [200, 210, 220, 230] 2 1)
                      [[5 / 4, 5 / 4], [1, 1]]))
    = [\<lparr>skill_r = Some 4, skill_rmse = None, skill_rmse_corr = Some 0, skill_mae = None\<rparr>,
      \<lparr>skill_r = Some 6, skill_rmse = None, skill_rmse_corr = Some 0, skill_mae = None\<rparr>]"
  unfolding example_density_df
  by (simp add: example_externals_def extract_samples_def concat_columns_def)

lemma example_align:
  "\<exists>st' al. align_profile example_externals example_config example_pit_summary
              example_pit_density example_state smp_example = Done (st', al)
           \<and> al_smp_df al = \<lparr>df_distance = [0, 1, 2, 3], df_density = [200, 210, 220, 230],
                               df_force_median = [1, 11 / 10, 12 / 10, 13 / 10],
                               df_l = [3, 29 / 10, 28 / 10, 27 / 10]\<rparr>
           \<and> al_random_tests al = [[5 / 4, 5 / 4], [1, 1]]
           \<and> al_min_scaling_idx al = 1 \<and> st_np_random st' = (\<lambda>i. 1 / 2)"
proof (rule align_profile_DoneI [OF example_pit])
  show "resample_profile (H_RESAMPLE example_config)
     (ps_MPD \<lparr>ps_ID = ''A1'', ps_SMPF = 649, ps_MPD = 4 / 1000\<rparr> * 1000 -
      Max (set (distance smp_example))) smp_example =
    Inr \<lparr>df_distance = [0, 1, 2, 3], df_density = [200, 210, 220, 230],
                               df_force_median = [1, 11 / 10, 12 / 10, 13 / 10],
                               df_l = [3, 29 / 10, 28 / 10, 27 / 10]\<rparr>"
    using example_resample by (simp add: example_config_def)
  show "L_RESAMPLE example_config \<noteq> 0"
    by (simp add: example_config_def)
  show "random_tests_of example_externals (NUM_TESTS example_config)
     (nat \<lceil>real (length (df_distance \<lparr>df_distance = [0, 1, 2, 3], df_density = [200, 210, 220, 230],
                               df_force_median = [1, 11 / 10, 12 / 10, 13 / 10],
                               df_l = [3, 29 / 10, 28 / 10, 27 / 10]\<rparr>)) /
           real (L_RESAMPLE example_config)\<rceil>)
     (MAX_STRETCH_OVERALL example_config) (MAX_STRETCH_LAYER example_config)
     (st_np_random example_state) =
    Some ([[5 / 4, 5 / 4], [1, 1]], \<lambda>i. 1 / 2)"
    using example_tests by (simp add: example_config_def example_state_def example_externals_def)
  show "min_scaling_idx
     (map (\<lambda>profile. smpfunc_calc_skill example_externals profile (CUTTER_SIZE example_config))
       (map (\<lambda>(dists, rho).
                concat_columns
                 (extract_samples dists rho
                   (map dd_relative_height
                     (density_df_of (CUTTER_SIZE example_config) example_pit_density
                       (ps_ID \<lparr>ps_ID = ''A1'', ps_SMPF = 649, ps_MPD = 4 / 1000\<rparr>)))
                   (real (CUTTER_SIZE example_config)))
                 (density_df_of (CUTTER_SIZE example_config) example_pit_density
                   (ps_ID \<lparr>ps_ID = ''A1'', ps_SMPF = 649, ps_MPD = 4 / 1000\<rparr>)))
         (map (\<lambda>test.
                  smpfunc_scale_profile example_externals test
                   (df_distance \<lparr>df_distance = [0, 1, 2, 3], df_density = [200, 210, 220, 230],
                               df_force_median = [1, 11 / 10, 12 / 10, 13 / 10],
                               df_l = [3, 29 / 10, 28 / 10, 27 / 10]\<rparr>)
                   (df_density \<lparr>df_distance = [0, 1, 2, 3], df_density = [200, 210, 220, 230],
                               df_force_median = [1, 11 / 10, 12 / 10, 13 / 10],
                               df_l = [3, 29 / 10, 28 / 10, 27 / 10]\<rparr>)
                   (L_RESAMPLE example_config) (H_RESAMPLE example_config))
           [[5 / 4, 5 / 4], [1, 1]]))) =
    Inr 1"
    unfolding example_config_def config.simps pit_summary_row.simps smp_df.simps
      example_skills example_min_idx by (rule refl)
qed

subsection \<open>Part 1: the selected candidate\<close>




subsection \<open>Part 1: the selected plan and the other quantities\<close>

lemma length_extract_samples: "length (extract_samples dists vals centers h) = length centers"
  by (simp add: extract_samples_def)

lemma concat_columns_samples:
  assumes "length profile = length density_df"
  shows "map col_mean_samp (concat_columns profile density_df) = map mean_samp profile"
    and "map col_count_samp (concat_columns profile density_df) = map count_samp profile"
    and "length (concat_columns profile density_df) = length density_df"
  using assms unfolding concat_columns_def
  by (induction profile density_df rule: list_induct2) simp_all

lemma assign_l_force_median_columns:
  assumes "length profile = length l_col" "length l_col = length force_col"
  shows "map col_l (assign_l_force_median profile l_col force_col) = l_col"
    and "map col_force_median (assign_l_force_median profile l_col force_col) = force_col"
    and "map col_mean_samp (assign_l_force_median profile l_col force_col)
           = map col_mean_samp profile"
    and "map col_count_samp (assign_l_force_median profile l_col force_col)
           = map col_count_samp profile"
  using assms unfolding assign_l_force_median_def
  by (induction profile l_col force_col rule: list_induct3) simp_all

text \<open>
  C3. When the alignment of a profile is done, the plan kept in \<open>min_scaling_coeff\<close> is
  the selected candidate, and the rows appended to \<open>comparison_df\<close> hold, per density
  measurement, the sample means of the density, of \<open>l\<close> and of \<open>force_median\<close>, each
  extracted from that quantity scaled by \<open>scale_profile\<close> with this one plan. (The depth
  axis of the \<open>l\<close> extraction is the one the \<open>force_median\<close> call returns; it is the axis
  of the \<open>l\<close> call whenever the axis that \<open>scale_profile\<close> returns does not depend on
  the carried values.)
\<close>

theorem winning_plan_reapplied:
  assumes "align_profile E cfg pit_summary pit_density st smp = Done (st', al)"
  shows "last (st_min_scaling_coeff st') = al_random_tests al ! al_min_scaling_idx al
    \<and> st_comparison_df st' = st_comparison_df st @ al_result al
    \<and> map col_mean_samp (al_result al) =
        map mean_samp
          (extract_samples
             (fst (smpfunc_scale_profile E (last (st_min_scaling_coeff st'))
                     (df_distance (al_smp_df al)) (df_density (al_smp_df al))
                     (L_RESAMPLE cfg) (H_RESAMPLE cfg)))
             (snd (smpfunc_scale_profile E (last (st_min_scaling_coeff st'))
                     (df_distance (al_smp_df al)) (df_density (al_smp_df al))
                     (L_RESAMPLE cfg) (H_RESAMPLE cfg)))
             (map dd_relative_height (al_density_df al)) (real (CUTTER_SIZE cfg)))
    \<and> map col_l (al_result al) =
        map mean_samp
          (extract_samples
             (fst (smpfunc_scale_profile E (last (st_min_scaling_coeff st'))
                     (df_distance (al_smp_df al)) (df_force_median (al_smp_df al))
                     (L_RESAMPLE cfg) (H_RESAMPLE cfg)))
             (snd (smpfunc_scale_profile E (last (st_min_scaling_coeff st'))
                     (df_distance (al_smp_df al)) (df_l (al_smp_df al))
                     (L_RESAMPLE cfg) (H_RESAMPLE cfg)))
             (map dd_relative_height (al_density_df al)) (real (CUTTER_SIZE cfg)))
    \<and> map col_force_median (al_result al) =
        map mean_samp
          (extract_samples
             (fst (smpfunc_scale_profile E (last (st_min_scaling_coeff st'))
                     (df_distance (al_smp_df al)) (df_force_median (al_smp_df al))
                     (L_RESAMPLE cfg) (H_RESAMPLE cfg)))
             (snd (smpfunc_scale_profile E (last (st_min_scaling_coeff st'))
                     (df_distance (al_smp_df al)) (df_force_median (al_smp_df al))
                     (L_RESAMPLE cfg) (H_RESAMPLE cfg)))
             (map dd_relative_height (al_density_df al)) (real (CUTTER_SIZE cfg)))
    \<and> ((\<forall>test dists v w. fst (smpfunc_scale_profile E test dists v (L_RESAMPLE cfg) (H_RESAMPLE cfg))
                        = fst (smpfunc_scale_profile E test dists w (L_RESAMPLE cfg) (H_RESAMPLE cfg)))
        \<longrightarrow> map col_l (al_result al) =
        map mean_samp
          (extract_samples
             (fst (smpfunc_scale_profile E (last (st_min_scaling_coeff st'))
                     (df_distance (al_smp_df al)) (df_l (al_smp_df al))
                     (L_RESAMPLE cfg) (H_RESAMPLE cfg)))
             (snd (smpfunc_scale_profile E (last (st_min_scaling_coeff st'))
                     (df_distance (al_smp_df al)) (df_l (al_smp_df al))
                     (L_RESAMPLE cfg) (H_RESAMPLE cfg)))
             (map dd_relative_height (al_density_df al)) (real (CUTTER_SIZE cfg))))"
proof -
  note d = align_profile_Done [OF assms]
  let ?plan = "al_random_tests al ! al_min_scaling_idx al"
  let ?h = "map dd_relative_height (al_density_df al)"
  let ?scale = "\<lambda>vals. smpfunc_scale_profile E ?plan (df_distance (al_smp_df al)) vals
                        (L_RESAMPLE cfg) (H_RESAMPLE cfg)"
  have p: "last (st_min_scaling_coeff st') = ?plan"
    by (simp add: d(7))
  have i: "al_min_scaling_idx al < length (al_random_tests al)"
    using min_scaling_idx_top(1) [OF d(6)] by (simp add: d(5) d(4))
  have c: "al_compare_profiles al ! al_min_scaling_idx al =
        concat_columns
          (extract_samples (fst (?scale (df_density (al_smp_df al))))
             (snd (?scale (df_density (al_smp_df al)))) ?h (real (CUTTER_SIZE cfg)))
          (al_density_df al)"
    using i by (subst d(4)) (simp add: split_def)
  have lc: "length (al_compare_profiles al ! al_min_scaling_idx al) = length ?h"
    unfolding c by (simp add: concat_columns_samples(3) length_extract_samples)
  have m: "map col_mean_samp (al_compare_profiles al ! al_min_scaling_idx al) =
        map mean_samp
          (extract_samples (fst (?scale (df_density (al_smp_df al))))
             (snd (?scale (df_density (al_smp_df al)))) ?h (real (CUTTER_SIZE cfg)))"
    unfolding c by (rule concat_columns_samples(1)) (simp add: length_extract_samples)
  have r1: "map col_mean_samp (al_result al) =
        map mean_samp
          (extract_samples (fst (?scale (df_density (al_smp_df al))))
             (snd (?scale (df_density (al_smp_df al)))) ?h (real (CUTTER_SIZE cfg)))"
    unfolding d(8) m [symmetric]
    by (rule assign_l_force_median_columns(3)) (simp_all add: lc length_extract_samples)
  have r2: "map col_l (al_result al) =
        map mean_samp
          (extract_samples (fst (?scale (df_force_median (al_smp_df al))))
             (snd (?scale (df_l (al_smp_df al)))) ?h (real (CUTTER_SIZE cfg)))"
    unfolding d(8)
    by (rule assign_l_force_median_columns(1)) (simp_all add: lc length_extract_samples)
  have r3: "map col_force_median (al_result al) =
        map mean_samp
          (extract_samples (fst (?scale (df_force_median (al_smp_df al))))
             (snd (?scale (df_force_median (al_smp_df al)))) ?h (real (CUTTER_SIZE cfg)))"
    unfolding d(8)
    by (rule assign_l_force_median_columns(2)) (simp_all add: lc length_extract_samples)
  have r4: "map col_l (al_result al) =
        map mean_samp
          (extract_samples (fst (?scale (df_l (al_smp_df al))))
             (snd (?scale (df_l (al_smp_df al)))) ?h (real (CUTTER_SIZE cfg)))"
    if "\<forall>test dists v w. fst (smpfunc_scale_profile E test dists v (L_RESAMPLE cfg) (H_RESAMPLE cfg))
                        = fst (smpfunc_scale_profile E test dists w (L_RESAMPLE cfg) (H_RESAMPLE cfg))"
  proof -
    have "fst (?scale (df_force_median (al_smp_df al))) = fst (?scale (df_l (al_smp_df al)))"
      using that by blast
    then show ?thesis using r2 by simp
  qed
  show ?thesis
    unfolding p using d(9) r1 r2 r3 r4 by blast
qed


lemma example_scale_axis:
  "\<forall>test dists v w.
     fst (smpfunc_scale_profile example_externals test dists v
            (L_RESAMPLE example_config) (H_RESAMPLE example_config))
     = fst (smpfunc_scale_profile example_externals test dists w
            (L_RESAMPLE example_config) (H_RESAMPLE example_config))"
  by (simp add: example_externals_def)

theorem winning_plan_reapplied_witness:
  "\<exists>st' al. align_profile example_externals example_config example_pit_summary
              example_pit_density example_state smp_example = Done (st', al)
     \<and> (\<forall>test dists v w.
           fst (smpfunc_scale_profile example_externals test dists v
                  (L_RESAMPLE example_config) (H_RESAMPLE example_config))
           = fst (smpfunc_scale_profile example_externals test dists w
                  (L_RESAMPLE example_config) (H_RESAMPLE example_config)))
     \<and> last (st_min_scaling_coeff st') = [1, 1]
     \<and> map col_mean_samp (al_result al) = [Some 210, Some 220]
     \<and> map col_l (al_result al) = [Some (29 / 10), Some (28 / 10)]
     \<and> map col_force_median (al_result al) = [Some (11 / 10), Some (12 / 10)]"
proof -
  obtain st' al where a: "align_profile example_externals example_config example_pit_summary
              example_pit_density example_state smp_example = Done (st', al)"
    and s: "al_smp_df al = \<lparr>df_distance = [0, 1, 2, 3], df_density = [200, 210, 220, 230],
                               df_force_median = [1, 11 / 10, 12 / 10, 13 / 10],
                               df_l = [3, 29 / 10, 28 / 10, 27 / 10]\<rparr>"
    and t: "al_random_tests al = [[5 / 4, 5 / 4], [1, 1]]" and i: "al_min_scaling_idx al = 1"
    using example_align by blast
  have h: "map dd_relative_height (al_density_df al) = [1, 2]"
    using align_profile_Done(1) [OF a] example_pit example_density_df
    by (auto simp: example_config_def)
  note c = winning_plan_reapplied [OF a]
  have p: "last (st_min_scaling_coeff st') = [1, 1]"
    using c t i by simp
  have m: "map col_mean_samp (al_result al) = [Some 210, Some 220]"
    using c unfolding p s h
    by (simp add: example_externals_def example_config_def extract_samples_def)
  have l: "map col_l (al_result al) = [Some (29 / 10), Some (28 / 10)]"
    using c example_scale_axis unfolding p s h
    by (simp add: example_externals_def example_config_def extract_samples_def)
  have f: "map col_force_median (al_result al) = [Some (11 / 10), Some (12 / 10)]"
    using c unfolding p s h
    by (simp add: example_externals_def example_config_def extract_samples_def)
  from a example_scale_axis p m l f show ?thesis
    by (intro exI [of _ st'] exI [of _ al] conjI)
qed

subsection \<open>Part 1: a failing profile\<close>

lemma align_profile_no_pit:
  assumes "filter (\<lambda>pit. ps_SMPF pit = smp_file_num smp) pit_summary = []"
  shows "align_profile E cfg pit_summary pit_density st smp = Raised IndexError"
  using assms by (simp add: align_profile_def)

lemma alignment_loop_append:
  "alignment_loop E cfg ps pd st (xs @ ys) =
     (case alignment_loop E cfg ps pd st xs of
        Hangs \<Rightarrow> Hangs
      | Raised e \<Rightarrow> Raised e
      | Done (st1, als1) \<Rightarrow>
          (case alignment_loop E cfg ps pd st1 ys of
             Hangs \<Rightarrow> Hangs
           | Raised e \<Rightarrow> Raised e
           | Done (st2, als2) \<Rightarrow> Done (st2, als1 @ als2)))"
  by (induction xs arbitrary: st) (auto split: run.splits)

lemma alignment_loop_Done:
  assumes "alignment_loop E cfg ps pd st smp_data = Done (st', als)"
  shows "length als = length smp_data
       \<and> (\<forall>i < length smp_data. \<exists>s s'. align_profile E cfg ps pd s (smp_data ! i) = Done (s', als ! i))"
  using assms
proof (induction smp_data arbitrary: st als)
  case Nil
  then show ?case by simp
next
  case (Cons smp rest)
  from Cons.prems obtain st1 al als1
    where a: "align_profile E cfg ps pd st smp = Done (st1, al)"
      and r: "alignment_loop E cfg ps pd st1 rest = Done (st', als1)"
      and e: "als = al # als1"
    by (auto split: run.splits)
  note ih = Cons.IH [OF r]
  have "\<exists>s s'. align_profile E cfg ps pd s ((smp # rest) ! i) = Done (s', als ! i)"
    if "i < length (smp # rest)" for i
  proof (cases i)
    case 0
    then show ?thesis using a e by auto
  next
    case (Suc k)
    then show ?thesis using ih that e by auto
  qed
  then show ?case using ih e by simp
qed

text \<open>
  C5. The loop has no exception handling. A profile without a matching snow
  pit raises \<open>IndexError\<close>; when the profiles before a profile are done and that profile
  raises, the loop raises the same exception, whatever profiles come after; and when the
  loop is done, every profile of the batch was aligned without failure, one alignment per
  profile.
\<close>

theorem failing_profile_aborts_batch:
  "(filter (\<lambda>pit. ps_SMPF pit = smp_file_num smp) pit_summary = [] \<longrightarrow>
      align_profile E cfg pit_summary pit_density st smp = Raised IndexError)
   \<and> (alignment_loop E cfg pit_summary pit_density st before = Done (st1, als1)
        \<and> align_profile E cfg pit_summary pit_density st1 smp = Raised e \<longrightarrow>
      alignment_loop E cfg pit_summary pit_density st (before @ smp # rest) = Raised e)
   \<and> (alignment_loop E cfg pit_summary pit_density st smp_data = Done (st', als) \<longrightarrow>
      length als = length smp_data
      \<and> (\<forall>i < length smp_data. \<exists>s s'.
            align_profile E cfg pit_summary pit_density s (smp_data ! i) = Done (s', als ! i)))"
  using align_profile_no_pit [of smp pit_summary E cfg pit_density st]
    alignment_loop_Done [of E cfg pit_summary pit_density st smp_data st' als]
  by (simp add: alignment_loop_append)

lemma example_no_pit:
  "filter (\<lambda>pit. ps_SMPF pit = smp_file_num smp_no_pit) example_pit_summary = []"
  by (simp add: smp_no_pit_def example_pit_summary_def)

lemma example_loop_single:
  "is_Done (alignment_loop example_externals example_config example_pit_summary
              example_pit_density example_state [smp_example])"
  using example_align by auto

text \<open>
  A batch of two profiles, the first without a snow pit: the loop raises \<open>IndexError\<close>
  and the second profile, which is aligned without failure when it is alone in the batch,
  is never processed.
\<close>

theorem failing_profile_aborts_batch_counterexample:
  "alignment_loop example_externals example_config example_pit_summary example_pit_density
     example_state [smp_no_pit, smp_example] = Raised IndexError
   \<and> is_Done (alignment_loop example_externals example_config example_pit_summary
                example_pit_density example_state [smp_example])"
  using example_loop_single align_profile_no_pit [OF example_no_pit] by simp

theorem failing_profile_aborts_batch_witness:
  "filter (\<lambda>pit. ps_SMPF pit = smp_file_num smp_no_pit) example_pit_summary = []
   \<and> alignment_loop example_externals example_config example_pit_summary example_pit_density
       example_state [] = Done (example_state, [])
   \<and> align_profile example_externals example_config example_pit_summary example_pit_density
       example_state smp_no_pit = Raised IndexError
   \<and> alignment_loop example_externals example_config example_pit_summary example_pit_density
       example_state ([] @ smp_no_pit # [smp_example]) = Raised IndexError
   \<and> (\<exists>st' als. alignment_loop example_externals example_config example_pit_summary
         example_pit_density example_state [smp_example] = Done (st', als)
       \<and> length als = length [smp_example])"
proof -
  note t = failing_profile_aborts_batch [of smp_no_pit example_pit_summary example_externals
      example_config example_pit_density example_state "[]" example_state "[]" IndexError
      "[smp_example]" "[smp_example]"]
  have n: "align_profile example_externals example_config example_pit_summary example_pit_density
       example_state smp_no_pit = Raised IndexError"
    using t example_no_pit by blast
  have l: "alignment_loop example_externals example_config example_pit_summary example_pit_density
       example_state ([] @ smp_no_pit # [smp_example]) = Raised IndexError"
    using t n by simp
  obtain st' als where d: "alignment_loop example_externals example_config example_pit_summary
         example_pit_density example_state [smp_example] = Done (st', als)"
    using example_loop_single by (auto simp: is_Done_def)
  have "length als = length [smp_example]"
    using failing_profile_aborts_batch [of smp_no_pit example_pit_summary example_externals
      example_config example_pit_density example_state "[]" example_state "[]" IndexError
      "[smp_example]" "[smp_example]" st' als] d by blast
  with d n l example_no_pit show ?thesis by auto
qed


subsection \<open>Part 1: the seed and the order of the profiles\<close>
















lemma example_tests_g_edge:
  "random_tests_of example_externals 2 2 (1 / 4) (1 / 2) g_edge
     = Some ([[5 / 4, 5 / 4], [5 / 4, 5 / 4]], g_edge)"
  apply (simp add: numeral_2_eq_2 example_externals_def)
  apply (subst random_stretch.simps)
  apply (simp add: uniform_def net_stretch_def upt_0_2 numeral_2_eq_2 [symmetric] g_edge_def)
  apply (subst random_stretch.simps)
  apply (simp add: uniform_def net_stretch_def upt_0_2 numeral_2_eq_2 [symmetric] g_edge_def)
  done

text \<open>
  Without the seed the outcome does depend on the state the random source starts in: two
  starting states give the example profile different candidates.
\<close>

lemma unseeded_search_depends_on_ambient:
  "part1_alignment example_externals example_config False (\<lambda>i. if i < 2 then 3 / 4 else 1 / 2)
     example_pit_summary example_pit_density [file_649]
   \<noteq> part1_alignment example_externals example_config False g_edge
       example_pit_summary example_pit_density [file_649]"
proof
  assume eq: "part1_alignment example_externals example_config False
       (\<lambda>i. if i < 2 then 3 / 4 else 1 / 2) example_pit_summary example_pit_density [file_649]
     = part1_alignment example_externals example_config False g_edge
       example_pit_summary example_pit_density [file_649]"
  obtain st' al where a: "align_profile example_externals example_config example_pit_summary
              example_pit_density example_state smp_example = Done (st', al)"
    and s: "al_smp_df al = \<lparr>df_distance = [0, 1, 2, 3], df_density = [200, 210, 220, 230],
                               df_force_median = [1, 11 / 10, 12 / 10, 13 / 10],
                               df_l = [3, 29 / 10, 28 / 10, 27 / 10]\<rparr>"
    and t: "al_random_tests al = [[5 / 4, 5 / 4], [1, 1]]"
    using example_align by blast
  have e: "example_state = \<lparr>st_comparison_df = [], st_min_scaling_coeff = [],
                            st_np_random = (\<lambda>i. if i < 2 then 3 / 4 else 1 / 2)\<rparr>"
    by (simp add: example_state_def example_externals_def)
  have l: "part1_alignment example_externals example_config False
       (\<lambda>i. if i < 2 then 3 / 4 else 1 / 2) example_pit_summary example_pit_density [file_649]
     = Done (st', [al])"
    using a by (simp add: part1_alignment_def e smp_data_of_def endswith_def file_649_def)
  obtain st2 where b: "align_profile example_externals example_config example_pit_summary
      example_pit_density
      \<lparr>st_comparison_df = [], st_min_scaling_coeff = [], st_np_random = g_edge\<rparr> smp_example
      = Done (st2, al)"
    using eq unfolding l
    by (auto simp: part1_alignment_def smp_data_of_def endswith_def file_649_def
             split: run.splits)
  have "random_tests_of example_externals 2 2 (1 / 4) (1 / 2) g_edge
          = Some ([[5 / 4, 5 / 4], [1, 1]], st_np_random st2)"
    using align_profile_Done(3) [OF b] by (simp add: s t example_config_def)
  then show False
    by (simp add: example_tests_g_edge)
qed

subsection \<open>Part 1: the filtered table\<close>

lemma filter_results_rows:
  "map fst (filter_results c df) =
     filter (\<lambda>row. \<not> has_nan row \<and> col_count_samp row \<ge> c * 2
                   \<and> col_TYPE row \<notin> {Some ''N'', Some ''I''}) df"
  by (simp add: filter_results_def dropna_def Let_def comp_def conj_commute conj_left_commute)

lemma length_filter_le_diff:
  assumes "\<And>x. x \<in> set xs \<Longrightarrow> P x \<Longrightarrow> \<not> Q x"
  shows "length (filter P xs) + length (filter Q xs) \<le> length xs"
  using assms
  by (induction xs) auto

text \<open>
  A row with exactly \<open>2 * CUTTER_SIZE\<close> enclosed points and no missing cell is not
  retained when its layer is new snow: the third filter removes it.
\<close>

theorem under_sampled_rows_excluded_counterexample:
  "col_count_samp row_new_snow_30 = 2 * 15
   \<and> row_new_snow_30 \<notin> fst ` set (filter_results 15 [row_new_snow_30])"
  by (simp add: filter_results_def dropna_def has_nan_def row_new_snow_30_def row_faceted_30_def)

text \<open>
  C2. Every row of \<open>comparison_df\<close> whose \<open>count_samp\<close> is below
  \<open>2 * CUTTER_SIZE\<close> is absent from the filtered table, in particular a row with
  \<open>2 * CUTTER_SIZE - 1\<close> enclosed points; a row with exactly \<open>2 * CUTTER_SIZE\<close> points
  passes the count filter, and is in the filtered table exactly when it has no missing cell
  and its layer type is neither \<open>N\<close> nor \<open>I\<close>. The filtered table has at most as many
  rows as \<open>comparison_df\<close> has rows at or above the threshold.
\<close>

theorem under_sampled_rows_excluded:
  "(\<forall>row \<in> set comparison_df. col_count_samp row < 2 * c \<longrightarrow>
       row \<notin> fst ` set (filter_results c comparison_df))
   \<and> (\<forall>row \<in> set comparison_df. Suc (col_count_samp row) = 2 * c \<longrightarrow>
       row \<notin> fst ` set (filter_results c comparison_df))
   \<and> (\<forall>row \<in> set comparison_df. col_count_samp row = 2 * c \<longrightarrow>
       (row \<in> fst ` set (filter_results c comparison_df)
        \<longleftrightarrow> \<not> has_nan row \<and> col_TYPE row \<notin> {Some ''N'', Some ''I''}))
   \<and> length (filter_results c comparison_df)
         + length (filter (\<lambda>row. col_count_samp row < 2 * c) comparison_df)
       \<le> length comparison_df"
proof -
  have s: "fst ` set (filter_results c comparison_df) =
        {row \<in> set comparison_df. \<not> has_nan row \<and> col_count_samp row \<ge> c * 2
                   \<and> col_TYPE row \<notin> {Some ''N'', Some ''I''}}"
    using filter_results_rows [of c comparison_df] by (metis set_filter set_map)
  have l: "length (filter_results c comparison_df) = length (map fst (filter_results c comparison_df))"
    by simp
  have n: "length (filter_results c comparison_df)
         + length (filter (\<lambda>row. col_count_samp row < 2 * c) comparison_df)
       \<le> length comparison_df"
    unfolding l filter_results_rows
    by (rule length_filter_le_diff) auto
  show ?thesis using s n by auto
qed

theorem under_sampled_rows_excluded_witness:
  "set [row_faceted_30\<lparr>col_count_samp := 29\<rparr>, row_faceted_30] \<noteq> {}
   \<and> Suc (col_count_samp (row_faceted_30\<lparr>col_count_samp := 29\<rparr>)) = 2 * 15
   \<and> col_count_samp row_faceted_30 = 2 * 15
   \<and> row_faceted_30\<lparr>col_count_samp := 29\<rparr> \<notin>
        fst ` set (filter_results 15 [row_faceted_30\<lparr>col_count_samp := 29\<rparr>, row_faceted_30])
   \<and> row_faceted_30 \<in>
        fst ` set (filter_results 15 [row_faceted_30\<lparr>col_count_samp := 29\<rparr>, row_faceted_30])
   \<and> length (filter_results 15 [row_faceted_30\<lparr>col_count_samp := 29\<rparr>, row_faceted_30]) \<le> 1"
  using under_sampled_rows_excluded [of "[row_faceted_30\<lparr>col_count_samp := 29\<rparr>, row_faceted_30]" 15]
  by (simp add: row_faceted_30_def has_nan_def)

subsection \<open>Part 3: smoothing of the predicted labels\<close>

lemma upt_0_11: "[0..<11] = [0, 1, 2, 3, 4, 5, 6, 7, 8, 9, 10]"
  by code_simp

lemma flip_predictions_1:
  "map (flip_classifier (5 / 2)) flip_profile =
     [Faceted, Rounded, Faceted, Faceted, Faceted, Faceted, Faceted, Faceted, Faceted, Faceted,
      Faceted]"
  by (simp add: flip_profile_def flip_classifier_def upt_0_11)

lemma two_sample_predictions:
  "map two_sample_classifier flip_profile =
     [Faceted, Faceted, Rounded, Rounded, Faceted, Faceted, Faceted, Faceted, Faceted, Faceted,
      Faceted]"
  by (simp add: flip_profile_def two_sample_classifier_def upt_0_11)

text \<open>
  C8. The comment of \<open>classify_profile\<close> asks for layers of at least 1 cm, and a single
  flipped sample between samples of another label ought to be erased. The filter of the
  code is a trailing mode over three samples of 2.5 mm, less than 1 cm, and it leaves
  thinner layers in place. Of eleven samples predicted faceted but for the second, which
  is predicted rounded, the second stays rounded: its window holds two samples, one of
  each label, and the mode of a tie is the smaller code. Of eleven samples predicted
  faceted but for the third and fourth, two samples stay rounded, one row further down.
\<close>

theorem thin_layers_survive_smoothing:
  "map (flip_classifier (5 / 2)) flip_profile =
     [Faceted, Rounded, Faceted, Faceted, Faceted, Faceted, Faceted, Faceted, Faceted, Faceted,
      Faceted]
   \<and> map (snd \<circ> snd) (classify_profile flip_profile (flip_classifier (5 / 2))) =
     [Some Faceted, Some Rounded, Some Faceted, Some Faceted, Some Faceted, Some Faceted,
      Some Faceted, Some Faceted, Some Faceted, Some Faceted, Some Faceted]
   \<and> map two_sample_classifier flip_profile =
     [Faceted, Faceted, Rounded, Rounded, Faceted, Faceted, Faceted, Faceted, Faceted, Faceted,
      Faceted]
   \<and> map (snd \<circ> snd) (classify_profile flip_profile two_sample_classifier) =
     [Some Faceted, Some Faceted, Some Faceted, Some Rounded, Some Rounded, Some Faceted,
      Some Faceted, Some Faceted, Some Faceted, Some Faceted, Some Faceted]
   \<and> length (rolling_window (map layer_code (map two_sample_classifier flip_profile)) 10) = 3
   \<and> 3 * bin_height < 1 / 100"
proof -
  have "rolling_mode [2, 1, 2, 2, 2, 2, 2, 2, 2, 2, 2] = [2, 1, 2, 2, 2, 2, 2, 2, 2, 2, 2]"
    by (simp add: rolling_mode_def rolling_window_def mode_def upt_0_11)
  then have 1: "map (snd \<circ> snd) (classify_profile flip_profile (flip_classifier (5 / 2))) =
     [Some Faceted, Some Rounded, Some Faceted, Some Faceted, Some Faceted, Some Faceted,
      Some Faceted, Some Faceted, Some Faceted, Some Faceted, Some Faceted]"
    unfolding classify_profile_def Let_def flip_predictions_1
    by (simp add: layer_code_def label_of_code_def flip_profile_def upt_0_11)
  have "rolling_mode [2, 2, 1, 1, 2, 2, 2, 2, 2, 2, 2] = [2, 2, 2, 1, 1, 2, 2, 2, 2, 2, 2]"
    by (simp add: rolling_mode_def rolling_window_def mode_def upt_0_11)
  then have 2: "map (snd \<circ> snd) (classify_profile flip_profile two_sample_classifier) =
     [Some Faceted, Some Faceted, Some Faceted, Some Rounded, Some Rounded, Some Faceted,
      Some Faceted, Some Faceted, Some Faceted, Some Faceted, Some Faceted]"
    unfolding classify_profile_def Let_def two_sample_predictions
    by (simp add: layer_code_def label_of_code_def flip_profile_def upt_0_11)
  have 3: "length (rolling_window (map layer_code (map two_sample_classifier flip_profile)) 10) = 3"
    unfolding two_sample_predictions by (simp add: rolling_window_def)
  have 4: "3 * bin_height < 1 / 100"
    by (simp add: bin_height_def)
  show ?thesis
    using flip_predictions_1 two_sample_predictions 1 2 3 4 by simp
qed

lemma mode_single: "mode [a] = a"
  by (simp add: mode_def)

lemma mode_pair_same: "mode [a, a] = a"
  by (simp add: mode_def)

lemma mode_majority3:
  assumes "(p = a \<and> q = a) \<or> (p = a \<and> r = a) \<or> (q = a \<and> r = a)"
  shows "mode [p, q, r] = a"
proof -
  consider "p = a" "q = a" | "p = a" "r = a" | "q = a" "r = a"
    using assms by blast
  then show ?thesis
  proof cases
    case 1
    then show ?thesis by (cases "r = a"; cases "a < r") (auto simp: mode_def)
  next
    case 2
    then show ?thesis by (cases "q = a"; cases "a < q") (auto simp: mode_def)
  next
    case 3
    then show ?thesis by (cases "p = a"; cases "a < p") (auto simp: mode_def)
  qed
qed

lemma rolling_window_3:
  assumes "2 \<le> i" "i < length xs"
  shows "rolling_window xs i = [xs ! (i - 2), xs ! (i - 1), xs ! i]"
proof -
  have l: "length (rolling_window xs i) = 3"
    using assms by (simp add: rolling_window_def)
  have n: "\<And>k. k < 3 \<Longrightarrow> rolling_window xs i ! k = xs ! (i - 2 + k)"
    using assms by (simp add: rolling_window_def)
  have i: "i - 2 + 1 = i - 1" "i - 2 + 2 = i"
    using assms by arith+
  have e: "rolling_window xs i ! 0 = xs ! (i - 2)" "rolling_window xs i ! 1 = xs ! (i - 1)"
       "rolling_window xs i ! 2 = xs ! i"
    using n [of 0] n [of 1] n [of 2] i by simp_all
  have "length (rolling_window xs i) = length [xs ! (i - 2), xs ! (i - 1), xs ! i]"
    using l by simp
  moreover have "rolling_window xs i ! k = [xs ! (i - 2), xs ! (i - 1), xs ! i] ! k"
    if "k < length (rolling_window xs i)" for k
  proof -
    from that l consider "k = 0" | "k = 1" | "k = 2" by arith
    then show ?thesis using e by cases simp_all
  qed
  ultimately show ?thesis by (rule nth_equalityI)
qed

lemma rolling_window_start:
  assumes "2 \<le> length xs"
  shows "rolling_window xs 0 = [xs ! 0]" "rolling_window xs 1 = [xs ! 0, xs ! 1]"
proof -
  obtain x y zs where "xs = x # y # zs"
    using assms by (cases xs; cases "tl xs") auto
  then show "rolling_window xs 0 = [xs ! 0]" "rolling_window xs 1 = [xs ! 0, xs ! 1]"
    by (simp_all add: rolling_window_def)
qed

lemma flip_nth:
  assumes "i < m + 1 + n"
  shows "(replicate m a @ [b] @ replicate n a) ! i = (if i = m then b else a)"
  using assms by (auto simp: nth_append nth_Cons')

lemma rolling_mode_single_flip:
  assumes "2 \<le> m"
  shows "rolling_mode (replicate m a @ [b] @ replicate n a) = replicate (m + 1 + n) a"
proof -
  let ?xs = "replicate m a @ [b] @ replicate n a"
  have len: "length ?xs = m + 1 + n" by simp
  have "mode (rolling_window ?xs i) = a" if i: "i < m + 1 + n" for i
  proof (cases "2 \<le> i")
    case True
    have w: "rolling_window ?xs i = [?xs ! (i - 2), ?xs ! (i - 1), ?xs ! i]"
      using True i by (intro rolling_window_3) simp_all
    have "?xs ! (i - 2) = (if i - 2 = m then b else a)"
         "?xs ! (i - 1) = (if i - 1 = m then b else a)"
         "?xs ! i = (if i = m then b else a)"
      using i by (simp_all only: flip_nth [of _ m n a b] less_imp_diff_less)
    note e = this
    have d: "\<not> (i - 2 = m \<and> i - 1 = m)" "\<not> (i - 2 = m \<and> i = m)" "\<not> (i - 1 = m \<and> i = m)"
      using True by arith+
    have "(?xs ! (i - 2) = a \<and> ?xs ! (i - 1) = a) \<or> (?xs ! (i - 2) = a \<and> ?xs ! i = a)
             \<or> (?xs ! (i - 1) = a \<and> ?xs ! i = a)"
      using d unfolding e by auto
    then show ?thesis
      unfolding w by (rule mode_majority3)
  next
    case False
    then consider "i = 0" | "i = 1" by arith
    then show ?thesis
    proof cases
      case 1
      have "rolling_window ?xs 0 = [?xs ! 0]"
        using assms by (intro rolling_window_start) simp
      moreover have "?xs ! 0 = a"
        using assms flip_nth [of 0 m n a b] by simp
      ultimately show ?thesis using 1 by (simp add: mode_single)
    next
      case 2
      have "rolling_window ?xs 1 = [?xs ! 0, ?xs ! 1]"
        using assms by (intro rolling_window_start) simp
      moreover have "?xs ! 0 = a" "?xs ! 1 = a"
        using assms flip_nth [of 0 m n a b] flip_nth [of 1 m n a b] by simp_all
      ultimately show ?thesis using 2 by (simp add: mode_pair_same)
    qed
  qed
  then have "\<And>i. i \<in> set [0..<m + 1 + n] \<Longrightarrow> mode (rolling_window ?xs i) = a"
    by (simp only: set_upt atLeastLessThan_iff)
  then have "map (\<lambda>i. mode (rolling_window ?xs i)) [0..<m + 1 + n] = map (\<lambda>i. a) [0..<m + 1 + n]"
    by (rule map_cong [OF refl])
  then show ?thesis
    unfolding rolling_mode_def len by (simp add: map_replicate_const)
qed


lemma map2_triple_codes:
  assumes "length ps = length cs"
  shows "map (\<lambda>(row, c, label). c) (map2 (\<lambda>row c. (row, c, f c)) ps cs) = cs"
    and "map (\<lambda>(row, c, label). label) (map2 (\<lambda>row c. (row, c, f c)) ps cs) = map f cs"
  using assms by (induction ps cs rule: list_induct2) simp_all

lemma length_rolling_mode: "length (rolling_mode xs) = length xs"
  by (simp add: rolling_mode_def)

lemma classify_profile_codes:
  "map (\<lambda>(row, c, label). c) (classify_profile profile classifier)
     = rolling_mode (map layer_code (map classifier profile))"
  "map (\<lambda>(row, c, label). label) (classify_profile profile classifier)
     = map label_of_code (rolling_mode (map layer_code (map classifier profile)))"
  unfolding classify_profile_def Let_def
  by (rule map2_triple_codes; simp add: length_rolling_mode)+

lemma label_of_layer_code: "label_of_code (layer_code a) = Some a"
  by (cases a) (simp_all add: label_of_code_def layer_code_def)

text \<open>
  Where the filter does erase a flip: from the third row on, the smoothed code of a row is
  the mode of the codes of that row and the two rows before it, and when the predictions
  are one label throughout but for a single sample with at least two samples before it,
  the smoothed column holds that one label in every row.
\<close>

lemma flip_after_two_samples_erased:
  assumes "map classifier profile = replicate m a @ [b] @ replicate n a" and "2 \<le> m"
  shows "map (\<lambda>(row, c, label). c) (classify_profile profile classifier)
           = replicate (m + 1 + n) (layer_code a)
       \<and> map (\<lambda>(row, c, label). label) (classify_profile profile classifier)
           = replicate (m + 1 + n) (Some a)
       \<and> (\<forall>i. 2 \<le> i \<and> i < length profile \<longrightarrow>
            map (\<lambda>(row, c, label). c) (classify_profile profile classifier) ! i
              = mode [layer_code (classifier (profile ! (i - 2))),
                      layer_code (classifier (profile ! (i - 1))),
                      layer_code (classifier (profile ! i))])"
proof -
  let ?codes = "map layer_code (map classifier profile)"
  have c: "?codes = replicate m (layer_code a) @ [layer_code b] @ replicate n (layer_code a)"
    by (simp add: assms(1))
  have r: "rolling_mode ?codes = replicate (m + 1 + n) (layer_code a)"
    unfolding c by (rule rolling_mode_single_flip [OF assms(2)])
  have 1: "map (\<lambda>(row, c, label). c) (classify_profile profile classifier)
           = replicate (m + 1 + n) (layer_code a)"
    by (simp only: classify_profile_codes r)
  have 2: "map (\<lambda>(row, c, label). label) (classify_profile profile classifier)
           = replicate (m + 1 + n) (Some a)"
    by (simp only: classify_profile_codes r map_replicate label_of_layer_code)
  have 3: "map (\<lambda>(row, c, label). c) (classify_profile profile classifier) ! i
              = mode [layer_code (classifier (profile ! (i - 2))),
                      layer_code (classifier (profile ! (i - 1))),
                      layer_code (classifier (profile ! i))]"
    if "2 \<le> i" "i < length profile" for i
  proof -
    have "rolling_mode ?codes ! i = mode (rolling_window ?codes i)"
      using that by (simp add: rolling_mode_def)
    also have "rolling_window ?codes i = [?codes ! (i - 2), ?codes ! (i - 1), ?codes ! i]"
      using that by (intro rolling_window_3) simp_all
    finally show ?thesis
      using that by (simp add: classify_profile_codes)
  qed
  show ?thesis using 1 2 3 by blast
qed

subsection \<open>Part 5: the bias columns\<close>

lemma bias_step_appends:
  assumes "bias_step acc p = Inr acc'"
  shows "delta_h_static acc' = delta_h_static acc @
           [Max (set (map (\<lambda>h. h / 1000) (sp_relative_height p)))
              * (C_vacuum / c_in_snow static_density C_vacuum - 1)]
       \<and> length (delta_h_smp acc') = Suc (length (delta_h_smp acc))"
  using assms
  by (auto simp: bias_step_def bind_err_def Let_def split: if_splits sum.splits)

lemma bias_loop_static:
  assumes "bias_loop acc ps = Inr acc'"
  shows "delta_h_static acc' = delta_h_static acc @
           map (\<lambda>p. Max (set (map (\<lambda>h. h / 1000) (sp_relative_height p)))
              * (C_vacuum / c_in_snow static_density C_vacuum - 1)) ps
       \<and> length (delta_h_smp acc') = length (delta_h_smp acc) + length ps"
  using assms
proof (induction ps arbitrary: acc)
  case Nil
  then show ?case by simp
next
  case (Cons p ps)
  then obtain a where a: "bias_step acc p = Inr a" and r: "bias_loop a ps = Inr acc'"
    by (auto split: sum.splits)
  from bias_step_appends [OF a] Cons.IH [OF r] show ?case by simp
qed

lemma set_column_Inr: "set_column n vs = Inr c \<Longrightarrow> c = vs \<and> length vs = n"
  by (auto simp: set_column_def split: if_splits)

lemma assign_bias_columns:
  assumes "assign_bias nrows acc = Inr df"
  shows "col_delta_h_w99 df = delta_h_static acc
       \<and> col_delta_h_static df = delta_h_static acc
       \<and> col_delta_h_smp df = delta_h_smp acc
       \<and> col_delta_h_error df = map2 (-) (delta_h_smp acc) (delta_h_static acc)
       \<and> length (delta_h_smp acc) = nrows \<and> length (delta_h_static acc) = nrows"
  using assms unfolding assign_bias_def bind_err_def
  by (auto split: sum.splits dest!: set_column_Inr)

text \<open>
  C10. After the bias-assignment cell, the column \<open>delta_h_w99\<close> of the summary table
  holds the list \<open>delta_h_static\<close> (thickness times the static-density factor, one entry
  per profile), whatever the loop accumulated in the list \<open>delta_h_w99\<close>; so in every
  row \<open>delta_h_error\<close> is \<open>delta_h_smp\<close> minus \<open>delta_h_static\<close>.
\<close>

theorem delta_h_w99_column_is_static:
  assumes "bias_loop bias_acc_empty profiles = Inr acc"
      and "assign_bias nrows acc = Inr df"
  shows "col_delta_h_w99 df = delta_h_static acc
       \<and> delta_h_static acc =
           map (\<lambda>p. Max (set (map (\<lambda>h. h / 1000) (sp_relative_height p)))
                      * (C_vacuum / c_in_snow static_density C_vacuum - 1)) profiles
       \<and> length (col_delta_h_error df) = nrows
       \<and> (\<forall>i<nrows. col_delta_h_error df ! i = delta_h_smp acc ! i - delta_h_static acc ! i)"
proof -
  note c = assign_bias_columns [OF assms(2)]
  have s: "delta_h_static acc =
           map (\<lambda>p. Max (set (map (\<lambda>h. h / 1000) (sp_relative_height p)))
                      * (C_vacuum / c_in_snow static_density C_vacuum - 1)) profiles"
    using bias_loop_static [OF assms(1)] by (simp add: bias_acc_empty_def)
  have e: "\<forall>i<nrows. col_delta_h_error df ! i = delta_h_smp acc ! i - delta_h_static acc ! i"
    using c by simp
  show ?thesis using c s e by simp
qed

lemma bias_loop_site_example: "\<exists>acc. bias_loop bias_acc_empty [site_example] = Inr acc"
  by (simp add: bias_step_def bind_err_def get_snow_depth_def get_snow_density_def 
     get_sd_coefs_def get_swe_coefs_def py_index_def sd_coefs_def swe_coefs_def site_example_def Let_def)


lemma bias_loop_single_lengths:
  assumes "bias_loop bias_acc_empty [p] = Inr acc"
  shows "length (delta_h_smp acc) = 1 \<and> length (delta_h_static acc) = 1
       \<and> length (w99_rho_latlon acc) = 1 \<and> length (c_cs_w99 acc) = 1
       \<and> length (c_cs_smp acc) = 1"
  using assms
  by (auto simp: bias_step_def bind_err_def Let_def bias_acc_empty_def
           split: if_splits sum.splits)

lemma assign_bias_succeeds:
  assumes "length (delta_h_smp acc) = n" "length (delta_h_static acc) = n"
          "length (w99_rho_latlon acc) = n" "length (c_cs_w99 acc) = n"
          "length (c_cs_smp acc) = n"
  shows "\<exists>df. assign_bias n acc = Inr df"
  using assms by (simp add: assign_bias_def bind_err_def set_column_def)

theorem delta_h_w99_column_is_static_witness:
  "\<exists>acc df. bias_loop bias_acc_empty [site_example] = Inr acc
     \<and> assign_bias 1 acc = Inr df
     \<and> col_delta_h_w99 df = delta_h_static acc
     \<and> delta_h_static acc = [5 / 2000 * (C_vacuum / c_in_snow static_density C_vacuum - 1)]
     \<and> length (col_delta_h_error df) = 1
     \<and> col_delta_h_error df ! 0 = delta_h_smp acc ! 0 - delta_h_static acc ! 0"
proof -
  obtain acc where a: "bias_loop bias_acc_empty [site_example] = Inr acc"
    using bias_loop_site_example by blast
  obtain df where d: "assign_bias 1 acc = Inr df"
    using assign_bias_succeeds [of acc 1] bias_loop_single_lengths [OF a] by auto
  have "delta_h_static acc = [5 / 2000 * (C_vacuum / c_in_snow static_density C_vacuum - 1)]"
    using delta_h_w99_column_is_static [OF a d] by (simp add: site_example_def)
  then show ?thesis
    using a d delta_h_w99_column_is_static [OF a d] by auto
qed

end
